theory Spec2Isabelle
  imports Main "HOL-Library.Word"
begin

section \<open>Wallets and accounts as the selector components see them\<close>

text \<open>
  The selector components (\<^verbatim>\<open>ui/page/components/wallet_selector.go\<close>) read wallets through
  the methods of \<^verbatim>\<open>*dcr.Wallet\<close> / \<^verbatim>\<open>*libwallet.Wallet\<close>. The backend is
  not part of the sources, so a wallet is modelled by the answers its methods give at
  the moment of the call. Amounts are Go \<^verbatim>\<open>int64\<close>: addition wraps around.
\<close>

type_synonym int64 = "64 word"

record Balance =
  Spendable :: int64

record Account =
  Number :: int
  AccountName :: string
  TotalBalance :: int64
  Balance :: Balance

text \<open>The \<^verbatim>\<open>*Accounts\<close> result of \<^verbatim>\<open>GetAccountsRaw\<close>; \<^verbatim>\<open>Acc\<close> is its slice of accounts.\<close>

record Accounts =
  Acc :: "Account list"

text \<open>
  \<^verbatim>\<open>GetAccountsRaw\<close> returns a pointer and an error. The pointer may be \<^verbatim>\<open>nil\<close>
  (\<open>None\<close>); the error is \<open>None\<close> for Go's \<^verbatim>\<open>nil\<close> error.
\<close>

record Wallet =
  ID :: int
  Name :: string
  IsWatchingOnlyWallet :: bool
  GetAccountsRaw :: "Accounts option \<times> string option"

datatype panic = NilPointerDereference | CloseOfClosedChannel | IndexOutOfRange

subsection \<open>walletBalance and wallBalance\<close>

text \<open>
  The body of the \<^verbatim>\<open>for _, account := range accountsResult.Acc\<close> loop, with the two
  running totals \<^verbatim>\<open>tBal\<close> and \<^verbatim>\<open>sBal\<close> as the accumulator.
\<close>

fun balance_loop :: "Account list \<Rightarrow> int64 \<times> int64 \<Rightarrow> int64 \<times> int64" where
  "balance_loop [] (tBal, sBal) = (tBal, sBal)"
| "balance_loop (account # rest) (tBal, sBal) =
     balance_loop rest (tBal + TotalBalance account, sBal + Spendable (Balance account))"

text \<open>
  \<^verbatim>\<open>walletBalance\<close> (the \<^verbatim>\<open>WalletAndAccountSelector\<close> revision). The error of
  \<^verbatim>\<open>GetAccountsRaw\<close> is discarded (\<^verbatim>\<open>accountsResult, _ :=\<close>); reading
  \<^verbatim>\<open>accountsResult.Acc\<close> through a nil pointer panics.
\<close>

definition walletBalance :: "Wallet \<Rightarrow> panic + (int64 \<times> int64)" where
  "walletBalance wal =
     (case fst (GetAccountsRaw wal) of
        None \<Rightarrow> Inl NilPointerDereference
      | Some accountsResult \<Rightarrow> Inr (balance_loop (Acc accountsResult) (0, 0)))"

text \<open>
  \<^verbatim>\<open>wallBalance\<close> (the \<^verbatim>\<open>WalletSelector\<close> revision): the same statements, with the
  totals declared before the query.
\<close>

definition wallBalance :: "Wallet \<Rightarrow> panic + (int64 \<times> int64)" where
  "wallBalance wal =
     (let tBal = 0; sBal = 0 in
      case fst (GetAccountsRaw wal) of
        None \<Rightarrow> Inl NilPointerDereference
      | Some accountsResult \<Rightarrow> Inr (balance_loop (Acc accountsResult) (tBal, sBal)))"

section \<open>The selector modal\<close>

datatype Clickable = NewClickable bool

text \<open>A \<^verbatim>\<open>SelectorItem\<close> holds either a wallet or an account (\<^verbatim>\<open>interface{}\<close>).\<close>

datatype selector_entry = WalletEntry Wallet | AccountEntry Account

record SelectorItem =
  item :: selector_entry
  clickable :: Clickable

text \<open>
  What the modal reaches through its embedded \<^verbatim>\<open>*load.Load\<close>:
  \<^verbatim>\<open>WL.SortedWalletList()\<close>, \<^verbatim>\<open>WL.SelectedWallet.Wallet\<close> and the sync state of
  the wallet the listener is attached to.
\<close>

record Load =
  SortedWalletList :: "Wallet list"
  SelectedWallet :: Wallet
  IsSynced :: bool

record SelectorModal =
  currentSelectedWallet :: Wallet
  selectorItems :: "SelectorItem list"
  accountIsValid :: "Account \<Rightarrow> bool"

text \<open>
  The loop of \<^verbatim>\<open>setupWallet\<close>. The test inside the loop reads
  \<^verbatim>\<open>sm.WL.SelectedWallet.Wallet.IsWatchingOnlyWallet()\<close>, not the loop variable
  \<^verbatim>\<open>wal\<close>.
\<close>

fun setupWallet_loop :: "Load \<Rightarrow> Wallet list \<Rightarrow> SelectorItem list \<Rightarrow> SelectorItem list" where
  "setupWallet_loop l [] items = items"
| "setupWallet_loop l (wal # wallets) items =
     setupWallet_loop l wallets
       (if \<not> IsWatchingOnlyWallet (SelectedWallet l)
        then items @ [\<lparr>item = WalletEntry wal, clickable = NewClickable True\<rparr>]
        else items)"

text \<open>
  \<^verbatim>\<open>setupWallet\<close>. The older revision of the file has the same function with the
  field named \<^verbatim>\<open>wallets\<close> and the item type \<^verbatim>\<open>selectorWallet\<close>.
\<close>

definition setupWallet :: "Load \<Rightarrow> SelectorModal \<Rightarrow> SelectorModal" where
  "setupWallet l sm = sm\<lparr>selectorItems := setupWallet_loop l (SortedWalletList l) []\<rparr>"

fun setupAccounts_loop :: "(Account \<Rightarrow> bool) \<Rightarrow> Account list \<Rightarrow> SelectorItem list \<Rightarrow> SelectorItem list" where
  "setupAccounts_loop valid [] items = items"
| "setupAccounts_loop valid (account # accounts) items =
     setupAccounts_loop valid accounts
       (if valid account
        then items @ [\<lparr>item = AccountEntry account, clickable = NewClickable True\<rparr>]
        else items)"

text \<open>
  \<^verbatim>\<open>setupAccounts\<close>: on an error of \<^verbatim>\<open>GetAccountsRaw\<close> it logs and returns with the
  list untouched; without an error it reads \<^verbatim>\<open>accountsResult.Acc\<close>.
\<close>

definition setupAccounts :: "Wallet \<Rightarrow> SelectorModal \<Rightarrow> panic + SelectorModal" where
  "setupAccounts wal sm =
     (if \<not> IsWatchingOnlyWallet wal then
        (case GetAccountsRaw wal of
           (_, Some err) \<Rightarrow> Inr sm
         | (None, None) \<Rightarrow> Inl NilPointerDereference
         | (Some accountsResult, None) \<Rightarrow>
             Inr (sm\<lparr>selectorItems := setupAccounts_loop (accountIsValid sm) (Acc accountsResult) []\<rparr>))
      else Inr (sm\<lparr>selectorItems := []\<rparr>))"

section \<open>The notification listener of the selectors\<close>

text \<open>
  A listener made by \<^verbatim>\<open>listeners.NewTxAndBlockNotificationListener()\<close> owns one
  channel, \<^verbatim>\<open>TxAndBlockNotifChan\<close>. Channels are named by the order of their creation.
\<close>

type_synonym chan = nat

datatype hub_error = DuplicateSubscriber

text \<open>
  Modelled from the spec: \<^verbatim>\<open>AddTxAndBlockNotificationListener\<close> belongs to libwallet,
  which is not among the sources; only its call
  \<^verbatim>\<open>AddTxAndBlockNotificationListener(listener, true, id)\<close> is. The spec's
  \<^verbatim>\<open>AddListener\<close> "fails with DuplicateSubscriber if subscriberID is already registered
  and active for this wallet"; otherwise the listener is registered under the ID. The
  registry maps each active ID to the channel of its listener.
\<close>

definition AddTxAndBlockNotificationListener ::
    "chan \<Rightarrow> bool \<Rightarrow> string \<Rightarrow> (string \<rightharpoonup> chan) \<Rightarrow> hub_error + (string \<rightharpoonup> chan)" where
  "AddTxAndBlockNotificationListener listener async uniqueIdentifier registry =
     (case registry uniqueIdentifier of
        Some _ \<Rightarrow> Inl DuplicateSubscriber
      | None \<Rightarrow> Inr (registry(uniqueIdentifier \<mapsto> listener)))"

text \<open>
  Modelled from the spec: \<^verbatim>\<open>RemoveTxAndBlockNotificationListener\<close> belongs to libwallet,
  which is not among the sources. The spec's \<^verbatim>\<open>RemoveListener\<close> makes the subscriber
  inactive, and a second call is a no-op. The channel itself belongs to the caller's
  listener and the caller closes it in the statement that follows the removal
  (\<^verbatim>\<open>close(ws.TxAndBlockNotifChan)\<close>), so the registry operation is the removal of the
  registration.
\<close>

definition RemoveTxAndBlockNotificationListener ::
    "string \<Rightarrow> (string \<rightharpoonup> chan) \<Rightarrow> (string \<rightharpoonup> chan)" where
  "RemoveTxAndBlockNotificationListener uniqueIdentifier registry =
     registry(uniqueIdentifier := None)"

text \<open>
  The selector (\<^verbatim>\<open>WalletSelector\<close> / \<^verbatim>\<open>WalletAndAccountSelector\<close>) together with
  what its listener code touches: the wallet's listener registry, the channels closed so
  far, the number of channels created, whether the goroutine started by
  \<^verbatim>\<open>ListenForTxNotifications\<close> is alive, the error log and the count of
  \<^verbatim>\<open>window.Reload()\<close> calls. The embedded pointer
  \<^verbatim>\<open>*listeners.TxAndBlockNotificationListener\<close> is \<open>None\<close> for \<^verbatim>\<open>nil\<close> and
  \<open>Some c\<close> for a listener whose channel is \<open>c\<close>.
\<close>

record Selector =
  TxAndBlockNotificationListener :: "chan option"
  selectedWallet :: Wallet
  accountSelector :: bool
  selectorModal :: "SelectorModal option"
  listenerRegistry :: "string \<rightharpoonup> chan"
  closedChannels :: "chan set"
  channelsCreated :: nat
  goroutineAlive :: bool
  errorLog :: "string list"
  windowReloads :: nat

definition WalletAndAccountSelectorID :: string where
  "WalletAndAccountSelectorID = ''WalletAndAccountSelector''"

text \<open>
  \<^verbatim>\<open>ListenForTxNotifications\<close>, the same statements in both revisions. The ID is
  \<^verbatim>\<open>WalletAndAccountSelectorID\<close> in the later revision and \<^verbatim>\<open>AccoutSelectorID\<close>
  (declared outside the sources) in the older one, so it is a parameter. The field is
  assigned before the registration is attempted and stays assigned when the registration
  fails.
\<close>

definition ListenForTxNotifications :: "string \<Rightarrow> Selector \<Rightarrow> Selector" where
  "ListenForTxNotifications uniqueIdentifier ws =
     (case TxAndBlockNotificationListener ws of
        Some _ \<Rightarrow> ws
      | None \<Rightarrow>
          (let listener = channelsCreated ws;
               ws1 = ws\<lparr>TxAndBlockNotificationListener := Some listener,
                        channelsCreated := Suc (channelsCreated ws)\<rparr>
           in case AddTxAndBlockNotificationListener listener True uniqueIdentifier
                     (listenerRegistry ws1) of
                Inl err \<Rightarrow>
                  ws1\<lparr>errorLog := errorLog ws1 @
                         [''Error adding tx and block notification listener: DuplicateSubscriber'']\<rparr>
              | Inr registry \<Rightarrow>
                  ws1\<lparr>listenerRegistry := registry, goroutineAlive := True\<rparr>))"

text \<open>
  The \<^verbatim>\<open>case <-ctx.Done()\<close> branch of the goroutine: remove the registration, close the
  channel, reset the field, return. Only a live goroutine can take it. Reading the
  channel through a nil listener and closing a closed channel are Go panics.
\<close>

definition ctxDone :: "string \<Rightarrow> Selector \<Rightarrow> panic + Selector" where
  "ctxDone uniqueIdentifier ws =
     (if \<not> goroutineAlive ws then Inr ws
      else
        (let ws1 = ws\<lparr>listenerRegistry :=
                          RemoveTxAndBlockNotificationListener uniqueIdentifier (listenerRegistry ws)\<rparr>
         in case TxAndBlockNotificationListener ws1 of
              None \<Rightarrow> Inl NilPointerDereference
            | Some c \<Rightarrow>
                if c \<in> closedChannels ws1 then Inl CloseOfClosedChannel
                else Inr (ws1\<lparr>closedChannels := insert c (closedChannels ws1),
                               TxAndBlockNotificationListener := None,
                               goroutineAlive := False\<rparr>)))"

datatype TxNotificationType = BlockAttached | NewTransaction | OtherNotification

text \<open>
  The refresh inside the \<^verbatim>\<open>case n := <-ws.TxAndBlockNotifChan\<close> branch, later revision:
  with a modal open, rebuild its list and reload the window.
\<close>

definition refreshModal :: "Load \<Rightarrow> Selector \<Rightarrow> panic + Selector" where
  "refreshModal l ws =
     (case selectorModal ws of
        None \<Rightarrow> Inr ws
      | Some sm \<Rightarrow>
          if accountSelector ws then
            (case setupAccounts (selectedWallet ws) sm of
               Inl p \<Rightarrow> Inl p
             | Inr sm' \<Rightarrow> Inr (ws\<lparr>selectorModal := Some sm', windowReloads := Suc (windowReloads ws)\<rparr>))
          else Inr (ws\<lparr>selectorModal := Some (setupWallet l sm),
                        windowReloads := Suc (windowReloads ws)\<rparr>))"

text \<open>
  The same refresh in the older revision: the account case leaves the \<^verbatim>\<open>switch\<close> with
  \<^verbatim>\<open>break\<close> before the reload, and the reload does not depend on a modal being open.
\<close>

definition refreshModalOld :: "Load \<Rightarrow> Selector \<Rightarrow> panic + Selector" where
  "refreshModalOld l ws =
     (case selectorModal ws of
        None \<Rightarrow> Inr (ws\<lparr>windowReloads := Suc (windowReloads ws)\<rparr>)
      | Some sm \<Rightarrow>
          if accountSelector ws then
            (case setupAccounts (selectedWallet ws) sm of
               Inl p \<Rightarrow> Inl p
             | Inr sm' \<Rightarrow> Inr (ws\<lparr>selectorModal := Some sm'\<rparr>))
          else Inr (ws\<lparr>selectorModal := Some (setupWallet l sm),
                        windowReloads := Suc (windowReloads ws)\<rparr>))"

text \<open>
  One notification received by the goroutine. \<open>old\<close> selects the revision. Without a
  live goroutine nothing receives from the channel.
\<close>

definition onNotification :: "bool \<Rightarrow> Load \<Rightarrow> TxNotificationType \<Rightarrow> Selector \<Rightarrow> panic + Selector" where
  "onNotification old l n ws =
     (if \<not> goroutineAlive ws then Inr ws
      else case n of
        BlockAttached \<Rightarrow>
          if IsSynced l then (if old then refreshModalOld l ws else refreshModal l ws)
          else Inr ws
      | NewTransaction \<Rightarrow> (if old then refreshModalOld l ws else refreshModal l ws)
      | OtherNotification \<Rightarrow> Inr ws)"

section \<open>Starting the BTC wallet\<close>

text \<open>
  \<^verbatim>\<open>wire.BitcoinNet\<close> with the four networks the \<^verbatim>\<open>switch\<close> of \<^verbatim>\<open>startWallet\<close> names;
  plain \<^verbatim>\<open>wire.TestNet\<close> is regtest. \<open>OtherNet\<close> stands for every other value.
\<close>

datatype BitcoinNet = MainNet | TestNet | TestNet3 | SimNet | OtherNet

record neutrino_Config =
  DataDir :: string
  Database :: string
  ChainParams :: BitcoinNet
  PersistToDisk :: bool
  AddPeers :: "string list"
  ConnectPeers :: "string list"
  BroadcastTimeoutSeconds :: nat

text \<open>
  The calls \<^verbatim>\<open>startWallet\<close> makes outside the sources, each with the error it
  returned (\<open>None\<close> for \<^verbatim>\<open>nil\<close>), and the log lines.
\<close>

datatype event =
    WalletExistsCall
  | LogDebug string
  | OpenWalletCall "string option"
  | WalletdbOpen string "string option"
  | NeutrinoDBClose "string option"
  | LogError string
  | NewChainService neutrino_Config "string option"
  | ChainServiceStop "string option"
  | NewNeutrinoClient
  | ChainClientStart "string option"
  | LogInfo string
  | SynchronizeRPC

text \<open>
  What the environment answers when \<^verbatim>\<open>startWallet\<close> asks: the result of
  \<^verbatim>\<open>WalletExists\<close> (\<open>Inl\<close> its error), and the error of every other call.
\<close>

record Environment =
  WalletExists :: "string + bool"
  OpenWallet :: "string option"
  AssetDataDir :: string
  WalletDataDbPath :: string
  chainParamsNet :: BitcoinNet
  walletdbOpenErr :: "string option"
  neutrinoDBCloseErr :: "string option"
  newChainServiceErr :: "string option"
  chainServiceStopErr :: "string option"
  chainClientStartErr :: "string option"

text \<open>The errors \<^verbatim>\<open>startWallet\<close> returns, one constructor for each message.\<close>

datatype start_error =
    ErrorVerifyingWalletExistence string
  | WalletNotFound
  | CouldntLoadWallet string
  | UnableToOpenWalletDb string string
  | CouldntCreateChainService string
  | CouldntStartNeutrinoClient string

text \<open>The \<^verbatim>\<open>switch asset.chainParams.Net\<close>: the pair (\<^verbatim>\<open>addPeers\<close>, \<^verbatim>\<open>connectPeers\<close>).\<close>

definition startupPeers :: "BitcoinNet \<Rightarrow> string list \<times> string list" where
  "startupPeers net =
     (case net of
        MainNet \<Rightarrow> ([''cfilters.ssgen.io''], [])
      | TestNet3 \<Rightarrow> ([''dex-test.ssgen.io''], [])
      | TestNet \<Rightarrow> ([], [''localhost:20575''])
      | SimNet \<Rightarrow> ([], [''localhost:20575''])
      | OtherNet \<Rightarrow> ([], []))"

text \<open>The closure \<^verbatim>\<open>bailOnWalletAndDB\<close>: close the database, log a failure to close.\<close>

definition bailOnWalletAndDB :: "Environment \<Rightarrow> event list" where
  "bailOnWalletAndDB env =
     NeutrinoDBClose (neutrinoDBCloseErr env) #
     (case neutrinoDBCloseErr env of
        Some err \<Rightarrow> [LogError (''Error closing neutrino database: '' @ err)]
      | None \<Rightarrow> [])"

text \<open>The closure \<^verbatim>\<open>bailOnEverything\<close>: stop the chain service, then \<^verbatim>\<open>bailOnWalletAndDB\<close>.\<close>

definition bailOnEverything :: "Environment \<Rightarrow> event list" where
  "bailOnEverything env =
     ChainServiceStop (chainServiceStopErr env) #
     (case chainServiceStopErr env of
        Some err \<Rightarrow> [LogError (''Error closing neutrino chain service: '' @ err)]
      | None \<Rightarrow> []) @
     bailOnWalletAndDB env"

definition chainServiceConfig :: "Environment \<Rightarrow> neutrino_Config" where
  "chainServiceConfig env =
     (let (addPeers, connectPeers) = startupPeers (chainParamsNet env) in
      \<lparr>DataDir = AssetDataDir env,
       Database = WalletDataDbPath env,
       ChainParams = chainParamsNet env,
       PersistToDisk = True,
       AddPeers = addPeers,
       ConnectPeers = connectPeers,
       BroadcastTimeoutSeconds = 6\<rparr>)"

text \<open>
  \<^verbatim>\<open>startWallet\<close>: the returned error (\<open>Inr ()\<close> for \<^verbatim>\<open>nil\<close>) and the calls made, in
  order.
\<close>

definition startWallet :: "Environment \<Rightarrow> (start_error + unit) \<times> event list" where
  "startWallet env =
     (case WalletExists env of
        Inl err \<Rightarrow> (Inl (ErrorVerifyingWalletExistence err), [WalletExistsCall])
      | Inr exists \<Rightarrow>
          if \<not> exists then (Inl WalletNotFound, [WalletExistsCall])
          else
            (let t1 = [WalletExistsCall, LogDebug ''Starting native BTC wallet...'',
                       OpenWalletCall (OpenWallet env)]
             in case OpenWallet env of
                  Some err \<Rightarrow> (Inl (CouldntLoadWallet err), t1)
                | None \<Rightarrow>
                    (let neutrinoDBPath = WalletDataDbPath env;
                         t2 = t1 @ [WalletdbOpen neutrinoDBPath (walletdbOpenErr env)]
                     in case walletdbOpenErr env of
                          Some err \<Rightarrow> (Inl (UnableToOpenWalletDb neutrinoDBPath err), t2)
                        | None \<Rightarrow>
                            (let t3 = t2 @ [LogDebug ''Starting neutrino chain service...'',
                                            NewChainService (chainServiceConfig env)
                                              (newChainServiceErr env)]
                             in case newChainServiceErr env of
                                  Some err \<Rightarrow>
                                    (Inl (CouldntCreateChainService err),
                                     t3 @ bailOnWalletAndDB env)
                                | None \<Rightarrow>
                                    (let t4 = t3 @ [NewNeutrinoClient,
                                                    ChainClientStart (chainClientStartErr env)]
                                     in case chainClientStartErr env of
                                          Some err \<Rightarrow>
                                            (Inl (CouldntStartNeutrinoClient err),
                                             t4 @ bailOnEverything env)
                                        | None \<Rightarrow>
                                            (Inr (),
                                             t4 @ [LogInfo ''Synchronizing wallet with network...'',
                                                   SynchronizeRPC]))))))"

text \<open>
  The two resources \<^verbatim>\<open>startWallet\<close> acquires and releases itself. A call that returned
  no error acquired its resource; a close or a stop releases it, whatever it returned.
\<close>

datatype resource = NeutrinoDB | ChainService

fun acquired :: "event list \<Rightarrow> resource list" where
  "acquired [] = []"
| "acquired (WalletdbOpen path None # es) = NeutrinoDB # acquired es"
| "acquired (NewChainService cfg None # es) = ChainService # acquired es"
| "acquired (e # es) = acquired es"

fun released :: "event list \<Rightarrow> resource list" where
  "released [] = []"
| "released (NeutrinoDBClose err # es) = NeutrinoDB # released es"
| "released (ChainServiceStop err # es) = ChainService # released es"
| "released (e # es) = released es"


section \<open>The treasury page\<close>

type_synonym TreasuryItem = string

text \<open>
  The fields of \<^verbatim>\<open>TreasuryPage\<close> its operations write, and what they cause outside the
  page: background fetches started and not yet completed, window reloads, modals shown
  and one-second reload timers armed. \<open>ctxCancel\<close> is \<open>None\<close> for \<^verbatim>\<open>nil\<close> and
  \<open>Some c\<close> for a context, cancelled when \<open>c\<close> holds.
\<close>

record TreasuryPage =
  isPolicyFetchInProgress :: bool
  treasuryItems :: "TreasuryItem list"
  ctxCancel :: "bool option"
  fetchesInFlight :: nat
  pageReloads :: nat
  modalsShown :: nat
  reloadTimers :: nat

text \<open>
  \<^verbatim>\<open>NewTreasuryPage\<close>: every field not listed in the composite literal has its zero value.
\<close>

definition NewTreasuryPage :: TreasuryPage where
  "NewTreasuryPage =
     \<lparr>isPolicyFetchInProgress = False, treasuryItems = [], ctxCancel = None,
      fetchesInFlight = 0, pageReloads = 0, modalsShown = 0, reloadTimers = 0\<rparr>"

text \<open>
  \<^verbatim>\<open>FetchPolicies\<close>, up to the start of the goroutine. \<open>piKeys\<close> is what
  \<^verbatim>\<open>pg.WL.MultiWallet.PiKeys()\<close> returns; indexing an empty slice panics, after the
  flag has been set. A panic is returned with the page as it was left.
\<close>

definition FetchPolicies :: "string list \<Rightarrow> TreasuryPage \<Rightarrow> (panic \<times> TreasuryPage) + TreasuryPage" where
  "FetchPolicies piKeys pg =
     (let pg1 = pg\<lparr>isPolicyFetchInProgress := True\<rparr> in
      case piKeys of
        [] \<Rightarrow> Inl (IndexOutOfRange, pg1)
      | key # _ \<Rightarrow>
          Inr (pg1\<lparr>fetchesInFlight := Suc (fetchesInFlight pg1),
                   pageReloads := Suc (pageReloads pg1)\<rparr>))"

text \<open>
  The body of the goroutine of \<^verbatim>\<open>FetchPolicies\<close>, run when \<^verbatim>\<open>LoadPolicies\<close> has
  returned \<open>items\<close>: it stores the items, assigns \<^verbatim>\<open>true\<close> to the flag and reloads.
\<close>

definition fetchCompleted :: "TreasuryItem list \<Rightarrow> TreasuryPage \<Rightarrow> TreasuryPage" where
  "fetchCompleted items pg =
     (if fetchesInFlight pg = 0 then pg
      else pg\<lparr>treasuryItems := items,
              isPolicyFetchInProgress := True,
              fetchesInFlight := fetchesInFlight pg - 1,
              pageReloads := Suc (pageReloads pg)\<rparr>)"

definition OnNavigatedTo :: "string list \<Rightarrow> TreasuryPage \<Rightarrow> (panic \<times> TreasuryPage) + TreasuryPage" where
  "OnNavigatedTo piKeys pg = FetchPolicies piKeys (pg\<lparr>ctxCancel := Some False\<rparr>)"

definition OnNavigatedFrom :: "TreasuryPage \<Rightarrow> TreasuryPage" where
  "OnNavigatedFrom pg =
     (case ctxCancel pg of
        None \<Rightarrow> pg
      | Some _ \<Rightarrow> pg\<lparr>ctxCancel := Some True\<rparr>)"

text \<open>
  \<^verbatim>\<open>HandleUserInteractions\<close>: \<open>choices\<close> counts the items whose choice button was
  clicked (each opens the password modal of \<^verbatim>\<open>updatePolicyPreference\<close>; there are no
  more of them than items), \<open>info\<close> says
  whether the info button was clicked, \<open>keys\<close> counts the clicks on the governance-keys
  link. While the flag is set, each call arms a timer that reloads the window.
\<close>

definition HandleUserInteractions :: "nat \<Rightarrow> bool \<Rightarrow> nat \<Rightarrow> TreasuryPage \<Rightarrow> TreasuryPage" where
  "HandleUserInteractions choices info keys pg =
     pg\<lparr>modalsShown := modalsShown pg + min choices (length (treasuryItems pg)) +
                       (if info then 1 else 0) + keys,
        reloadTimers := reloadTimers pg + (if isPolicyFetchInProgress pg then 1 else 0)\<rparr>"

text \<open>
  The positive-button callback of the modal opened by \<^verbatim>\<open>updatePolicyPreference\<close>:
  when \<^verbatim>\<open>SetTreasuryPolicy\<close> returns \<open>err\<close> the modal shows it; otherwise the
  policies are fetched again and a success modal is shown.
\<close>

definition policyPreferenceCallback ::
    "string option \<Rightarrow> string list \<Rightarrow> TreasuryPage \<Rightarrow> (panic \<times> TreasuryPage) + TreasuryPage" where
  "policyPreferenceCallback err piKeys pg =
     (case err of
        Some _ \<Rightarrow> Inr pg
      | None \<Rightarrow>
          (case FetchPolicies piKeys pg of
             Inl crash \<Rightarrow> Inl crash
           | Inr pg' \<Rightarrow> Inr (pg'\<lparr>modalsShown := Suc (modalsShown pg')\<rparr>)))"

text \<open>\<^verbatim>\<open>Layout\<close> and \<^verbatim>\<open>layoutContent\<close> read the page and write nothing.\<close>

definition Layout :: "TreasuryPage \<Rightarrow> TreasuryPage" where
  "Layout pg = pg"

datatype treasury_op =
    OpOnNavigatedTo "string list"
  | OpOnNavigatedFrom
  | OpHandleUserInteractions nat bool nat
  | OpFetchPolicies "string list"
  | OpFetchCompleted "TreasuryItem list"
  | OpPolicyPreferenceCallback "string option" "string list"
  | OpLayout

fun treasury_step :: "treasury_op \<Rightarrow> TreasuryPage \<Rightarrow> (panic \<times> TreasuryPage) + TreasuryPage" where
  "treasury_step (OpOnNavigatedTo piKeys) pg = OnNavigatedTo piKeys pg"
| "treasury_step OpOnNavigatedFrom pg = Inr (OnNavigatedFrom pg)"
| "treasury_step (OpHandleUserInteractions choices info keys) pg =
     Inr (HandleUserInteractions choices info keys pg)"
| "treasury_step (OpFetchPolicies piKeys) pg = FetchPolicies piKeys pg"
| "treasury_step (OpFetchCompleted items) pg = Inr (fetchCompleted items pg)"
| "treasury_step (OpPolicyPreferenceCallback err piKeys) pg = policyPreferenceCallback err piKeys pg"
| "treasury_step OpLayout pg = Inr (Layout pg)"

text \<open>A sequence of operations; a panic ends the program with the page as it was left.\<close>

fun treasury_run :: "treasury_op list \<Rightarrow> TreasuryPage \<Rightarrow> (panic \<times> TreasuryPage) + TreasuryPage" where
  "treasury_run [] pg = Inr pg"
| "treasury_run (op # ops) pg =
     (case treasury_step op pg of
        Inl crash \<Rightarrow> Inl crash
      | Inr pg' \<Rightarrow> treasury_run ops pg')"

definition page_of :: "(panic \<times> TreasuryPage) + TreasuryPage \<Rightarrow> TreasuryPage" where
  "page_of r = (case r of Inl (p, pg) \<Rightarrow> pg | Inr pg \<Rightarrow> pg)"

section \<open>The staking page\<close>

record TicketPriceResponse =
  TicketPrice :: int64
  Height :: int

text \<open>
  Texts the page shows: the localised strings it asks for by key, an error's own text,
  and \<^verbatim>\<open>dcrutil.Amount(x).String()\<close> of an amount.
\<close>

datatype ui_text =
    StrNotAvailable | StrWalletNotSynced | StrNotConnected
  | ErrorText string | AmountString int64

text \<open>
  The selected wallet as the staking page uses it: the answers of \<^verbatim>\<open>TicketPrice\<close>,
  \<^verbatim>\<open>IsSynced\<close>, \<^verbatim>\<open>IsConnectedToDecredNetwork\<close> and
  \<^verbatim>\<open>IsAutoTicketsPurchaseActive\<close>, the error \<^verbatim>\<open>StartTicketBuyer\<close> returns when called
  and whether purchases are active after that call, and the passphrases of the
  \<^verbatim>\<open>StartTicketBuyer\<close> calls made so far.
\<close>

record DcrWallet =
  TicketPriceResult :: "TicketPriceResponse option \<times> string option"
  WalletIsSynced :: bool
  IsConnectedToDecredNetwork :: bool
  IsAutoTicketsPurchaseActive :: bool
  startTicketBuyerErr :: "string option"
  activeAfterStart :: bool
  startTicketBuyerCalls :: "string list"

text \<open>
  \<^verbatim>\<open>StartTicketBuyer\<close> is a method of the wallet, outside the sources: the call is
  recorded, its error and the purchase state it leaves are the wallet's parameters.
\<close>

definition StartTicketBuyer :: "string \<Rightarrow> DcrWallet \<Rightarrow> string option \<times> DcrWallet" where
  "StartTicketBuyer passphrase w =
     (startTicketBuyerErr w,
      w\<lparr>startTicketBuyerCalls := startTicketBuyerCalls w @ [passphrase],
        IsAutoTicketsPurchaseActive := activeAfterStart w\<rparr>)"

record StakingPage =
  stakeChecked :: bool
  ticketPrice :: ui_text
  errorModals :: "ui_text list"
  stakingReloads :: nat

record CreatePasswordModal =
  modalError :: "ui_text option"
  modalLoading :: bool
  modalDismissed :: bool

text \<open>
  \<^verbatim>\<open>fetchTicketPrice\<close>. The error branch needs both an error and an unsynced wallet
  (\<^verbatim>\<open>err != nil && !IsSynced()\<close>); the \<^verbatim>\<open>else\<close> branch reads
  \<^verbatim>\<open>ticketPrice.TicketPrice\<close> through the returned pointer.
\<close>

definition fetchTicketPrice :: "DcrWallet \<Rightarrow> StakingPage \<Rightarrow> panic + StakingPage" where
  "fetchTicketPrice w pg =
     (case TicketPriceResult w of
        (ticketPriceResp, err) \<Rightarrow>
          if err \<noteq> None \<and> \<not> WalletIsSynced w then
            Inr (pg\<lparr>ticketPrice := StrNotAvailable,
                    errorModals := errorModals pg @ [StrWalletNotSynced]\<rparr>)
          else
            (case ticketPriceResp of
               None \<Rightarrow> Inl NilPointerDereference
             | Some resp \<Rightarrow> Inr (pg\<lparr>ticketPrice := AmountString (TicketPrice resp)\<rparr>)))"

text \<open>
  The positive-button callback of the password modal of
  \<^verbatim>\<open>startTicketBuyerPasswordModal\<close>. It returns \<^verbatim>\<open>false\<close> on every path.
\<close>

definition startTicketBuyerCallback ::
    "string \<Rightarrow> DcrWallet \<times> StakingPage \<times> CreatePasswordModal \<Rightarrow>
       bool \<times> DcrWallet \<times> StakingPage \<times> CreatePasswordModal" where
  "startTicketBuyerCallback password st =
     (case st of (w, pg, pm) \<Rightarrow>
        if \<not> IsConnectedToDecredNetwork w then
          (False, w, pg\<lparr>stakeChecked := False\<rparr>,
           pm\<lparr>modalError := Some StrNotConnected, modalLoading := False\<rparr>)
        else
          (case StartTicketBuyer password w of
             (Some err, w') \<Rightarrow>
               (False, w', pg, pm\<lparr>modalError := Some (ErrorText err), modalLoading := False\<rparr>)
           | (None, w') \<Rightarrow>
               (False, w',
                pg\<lparr>stakeChecked := IsAutoTicketsPurchaseActive w',
                   stakingReloads := Suc (stakingReloads pg)\<rparr>,
                pm\<lparr>modalDismissed := True\<rparr>)))"


section \<open>Example values\<close>

definition chainServiceFailsEnv :: Environment where
  "chainServiceFailsEnv =
     \<lparr>WalletExists = Inr True, OpenWallet = None, AssetDataDir = ''/data/btc'',
      WalletDataDbPath = ''/data/btc/wallet.db'', chainParamsNet = MainNet,
      walletdbOpenErr = None, neutrinoDBCloseErr = None,
      newChainServiceErr = Some ''bad peer list'', chainServiceStopErr = None,
      chainClientStartErr = None\<rparr>"

definition clientStartFailsEnv :: Environment where
  "clientStartFailsEnv =
     \<lparr>WalletExists = Inr True, OpenWallet = None, AssetDataDir = ''/data/btc'',
      WalletDataDbPath = ''/data/btc/wallet.db'', chainParamsNet = SimNet,
      walletdbOpenErr = None, neutrinoDBCloseErr = None,
      newChainServiceErr = None, chainServiceStopErr = Some ''already stopped'',
      chainClientStartErr = Some ''no connmgr''\<rparr>"

definition dbFailsEnv :: Environment where
  "dbFailsEnv =
     \<lparr>WalletExists = Inr True, OpenWallet = None, AssetDataDir = ''/data/btc'',
      WalletDataDbPath = ''/data/btc/wallet.db'', chainParamsNet = TestNet3,
      walletdbOpenErr = Some ''timeout'', neutrinoDBCloseErr = None,
      newChainServiceErr = None, chainServiceStopErr = None,
      chainClientStartErr = None\<rparr>"

definition allGoodEnv :: Environment where
  "allGoodEnv =
     \<lparr>WalletExists = Inr True, OpenWallet = None, AssetDataDir = ''/data/btc'',
      WalletDataDbPath = ''/data/btc/wallet.db'', chainParamsNet = TestNet,
      walletdbOpenErr = None, neutrinoDBCloseErr = None,
      newChainServiceErr = None, chainServiceStopErr = None,
      chainClientStartErr = None\<rparr>"

definition spendWallet :: Wallet where
  "spendWallet = \<lparr>ID = 1, Name = ''spend'', IsWatchingOnlyWallet = False,
                   GetAccountsRaw = (Some \<lparr>Acc = []\<rparr>, None)\<rparr>"

text \<open>A selector that has never listened: no listener, nothing registered, no channel made.\<close>

definition freshSelector :: Selector where
  "freshSelector =
     \<lparr>TxAndBlockNotificationListener = None, selectedWallet = spendWallet,
      accountSelector = False, selectorModal = None, listenerRegistry = Map.empty,
      closedChannels = {}, channelsCreated = 0, goroutineAlive = False, errorLog = [],
      windowReloads = 0\<rparr>"

definition exampleLoad :: Load where
  "exampleLoad = \<lparr>SortedWalletList = [spendWallet], SelectedWallet = spendWallet, IsSynced = True\<rparr>"

definition disconnectedWallet :: DcrWallet where
  "disconnectedWallet =
     \<lparr>TicketPriceResult = (None, Some ''not connected''), WalletIsSynced = True,
      IsConnectedToDecredNetwork = False, IsAutoTicketsPurchaseActive = False,
      startTicketBuyerErr = None, activeAfterStart = True, startTicketBuyerCalls = []\<rparr>"

definition stakingPage0 :: StakingPage where
  "stakingPage0 = \<lparr>stakeChecked = True, ticketPrice = StrNotAvailable, errorModals = [],
                    stakingReloads = 0\<rparr>"

definition passwordModal0 :: CreatePasswordModal where
  "passwordModal0 = \<lparr>modalError = None, modalLoading = True, modalDismissed = False\<rparr>"

section \<open>Wallet balances\<close>

lemma signed_take_bit_add_right:
  "signed_take_bit n (a + signed_take_bit n b) = signed_take_bit n (a + b :: int)"
proof -
  have "signed_take_bit n (a + signed_take_bit n b)
      = signed_take_bit n (signed_take_bit n a + signed_take_bit n (signed_take_bit n b))"
    by (simp only: signed_take_bit_add)
  also have "\<dots> = signed_take_bit n (signed_take_bit n a + signed_take_bit n b)"
    by simp
  also have "\<dots> = signed_take_bit n (a + b)"
    by (simp only: signed_take_bit_add)
  finally show ?thesis .
qed

lemma balance_loop_sum:
  "balance_loop accounts (t, s) =
     (t + sum_list (map TotalBalance accounts),
      s + sum_list (map (\<lambda>a. Spendable (Balance a)) accounts))"
  by (induction accounts arbitrary: t s) (simp_all add: add.assoc)

lemma sint_sum_list_wrap:
  "sint (sum_list (map f xs) :: int64) = signed_take_bit 63 (sum_list (map (\<lambda>x. sint (f x)) xs))"
proof (induction xs)
  case Nil
  show ?case by simp
next
  case (Cons x xs)
  have "sint (f x + sum_list (map f xs)) = signed_take_bit 63 (sint (f x) + sint (sum_list (map f xs)))"
    by (simp add: sint_word_ariths)
  also have "\<dots> = signed_take_bit 63 (sint (f x) + sum_list (map (\<lambda>x. sint (f x)) xs))"
    by (simp only: Cons.IH signed_take_bit_add_right)
  finally show ?case by simp
qed

text \<open>
  C8. A call of \<^verbatim>\<open>walletBalance\<close> (and of \<^verbatim>\<open>wallBalance\<close>) takes nothing but the
  wallet: it queries \<^verbatim>\<open>GetAccountsRaw\<close> and, for the account list that query returned,
  yields the pair (sum of \<^verbatim>\<open>TotalBalance\<close>, sum of \<^verbatim>\<open>Balance.Spendable\<close>) over all
  returned accounts, whatever error came with the list. The sums are Go \<^verbatim>\<open>int64\<close>
  sums: read as signed integers they are the integer sums wrapped to 64 bits.
\<close>

theorem walletBalance_sums:
  assumes "fst (GetAccountsRaw wal) = Some accountsResult"
  shows "walletBalance wal =
           Inr (sum_list (map TotalBalance (Acc accountsResult)),
                sum_list (map (\<lambda>a. Spendable (Balance a)) (Acc accountsResult)))
       \<and> wallBalance wal =
           Inr (sum_list (map TotalBalance (Acc accountsResult)),
                sum_list (map (\<lambda>a. Spendable (Balance a)) (Acc accountsResult)))
       \<and> sint (sum_list (map TotalBalance (Acc accountsResult))) =
           signed_take_bit 63 (sum_list (map (\<lambda>a. sint (TotalBalance a)) (Acc accountsResult)))
       \<and> sint (sum_list (map (\<lambda>a. Spendable (Balance a)) (Acc accountsResult))) =
           signed_take_bit 63 (sum_list (map (\<lambda>a. sint (Spendable (Balance a))) (Acc accountsResult)))"
proof -
  have "walletBalance wal =
           Inr (sum_list (map TotalBalance (Acc accountsResult)),
                sum_list (map (\<lambda>a. Spendable (Balance a)) (Acc accountsResult)))"
    using assms by (simp add: walletBalance_def balance_loop_sum)
  moreover have "wallBalance wal = walletBalance wal"
    by (simp add: wallBalance_def walletBalance_def)
  ultimately show ?thesis
    by (simp add: sint_sum_list_wrap)
qed

text \<open>
  A wallet with two accounts, and an error returned beside the list: the totals are
  12 and 5.
\<close>

theorem walletBalance_sums_witness:
  "walletBalance \<lparr>ID = 1, Name = ''w'', IsWatchingOnlyWallet = False,
      GetAccountsRaw = (Some \<lparr>Acc = [
         \<lparr>Number = 0, AccountName = ''default'', TotalBalance = 5, Balance = \<lparr>Spendable = 2\<rparr>\<rparr>,
         \<lparr>Number = 1, AccountName = ''mixed'', TotalBalance = 7, Balance = \<lparr>Spendable = 3\<rparr>\<rparr>]\<rparr>,
         Some ''stale'')\<rparr>
     = Inr (12, 5)
   \<and> wallBalance \<lparr>ID = 1, Name = ''w'', IsWatchingOnlyWallet = False,
      GetAccountsRaw = (Some \<lparr>Acc = [
         \<lparr>Number = 0, AccountName = ''default'', TotalBalance = 5, Balance = \<lparr>Spendable = 2\<rparr>\<rparr>,
         \<lparr>Number = 1, AccountName = ''mixed'', TotalBalance = 7, Balance = \<lparr>Spendable = 3\<rparr>\<rparr>]\<rparr>,
         Some ''stale'')\<rparr>
     = Inr (12, 5)"
  using walletBalance_sums [of
     "\<lparr>ID = 1, Name = ''w'', IsWatchingOnlyWallet = False,
      GetAccountsRaw = (Some \<lparr>Acc = [
         \<lparr>Number = 0, AccountName = ''default'', TotalBalance = 5, Balance = \<lparr>Spendable = 2\<rparr>\<rparr>,
         \<lparr>Number = 1, AccountName = ''mixed'', TotalBalance = 7, Balance = \<lparr>Spendable = 3\<rparr>\<rparr>]\<rparr>,
         Some ''stale'')\<rparr>"
     "\<lparr>Acc = [
         \<lparr>Number = 0, AccountName = ''default'', TotalBalance = 5, Balance = \<lparr>Spendable = 2\<rparr>\<rparr>,
         \<lparr>Number = 1, AccountName = ''mixed'', TotalBalance = 7, Balance = \<lparr>Spendable = 3\<rparr>\<rparr>]\<rparr>"]
  by simp

section \<open>The wallet list of the selector modal\<close>

lemma setupWallet_loop_all_or_nothing:
  "setupWallet_loop l wallets items =
     (if IsWatchingOnlyWallet (SelectedWallet l) then items
      else items @ map (\<lambda>wal. \<lparr>item = WalletEntry wal, clickable = NewClickable True\<rparr>) wallets)"
  by (induction wallets arbitrary: items) simp_all

text \<open>
  C10. \<^verbatim>\<open>setupWallet\<close> is all or nothing: its filter asks whether the selected wallet
  is watching-only, not the candidate. The list it stores is empty when the selected
  wallet is watching-only, and otherwise holds every wallet of \<^verbatim>\<open>SortedWalletList\<close>, in
  order, watching-only ones included.
\<close>

theorem setupWallet_all_or_nothing:
  "selectorItems (setupWallet l sm) =
     (if IsWatchingOnlyWallet (SelectedWallet l) then []
      else map (\<lambda>wal. \<lparr>item = WalletEntry wal, clickable = NewClickable True\<rparr>) (SortedWalletList l))"
  by (simp add: setupWallet_def setupWallet_loop_all_or_nothing)

text \<open>
  Two wallets, the second watching-only. With the first selected both are listed; with
  the second selected none is.
\<close>

theorem setupWallet_all_or_nothing_witness:
  "map item (selectorItems (setupWallet
      \<lparr>SortedWalletList =
         [\<lparr>ID = 1, Name = ''spend'', IsWatchingOnlyWallet = False, GetAccountsRaw = (None, None)\<rparr>,
          \<lparr>ID = 2, Name = ''watch'', IsWatchingOnlyWallet = True, GetAccountsRaw = (None, None)\<rparr>],
       SelectedWallet =
          \<lparr>ID = 1, Name = ''spend'', IsWatchingOnlyWallet = False, GetAccountsRaw = (None, None)\<rparr>,
       IsSynced = True\<rparr>
      \<lparr>currentSelectedWallet =
          \<lparr>ID = 1, Name = ''spend'', IsWatchingOnlyWallet = False, GetAccountsRaw = (None, None)\<rparr>,
       selectorItems = [], accountIsValid = (\<lambda>a. True)\<rparr>))
   = [WalletEntry \<lparr>ID = 1, Name = ''spend'', IsWatchingOnlyWallet = False, GetAccountsRaw = (None, None)\<rparr>,
      WalletEntry \<lparr>ID = 2, Name = ''watch'', IsWatchingOnlyWallet = True, GetAccountsRaw = (None, None)\<rparr>]
   \<and> selectorItems (setupWallet
      \<lparr>SortedWalletList =
         [\<lparr>ID = 1, Name = ''spend'', IsWatchingOnlyWallet = False, GetAccountsRaw = (None, None)\<rparr>,
          \<lparr>ID = 2, Name = ''watch'', IsWatchingOnlyWallet = True, GetAccountsRaw = (None, None)\<rparr>],
       SelectedWallet =
          \<lparr>ID = 2, Name = ''watch'', IsWatchingOnlyWallet = True, GetAccountsRaw = (None, None)\<rparr>,
       IsSynced = True\<rparr>
      \<lparr>currentSelectedWallet =
          \<lparr>ID = 2, Name = ''watch'', IsWatchingOnlyWallet = True, GetAccountsRaw = (None, None)\<rparr>,
       selectorItems = [], accountIsValid = (\<lambda>a. True)\<rparr>)
   = []"
  by (simp add: setupWallet_all_or_nothing)

section \<open>Starting the BTC wallet: rollback, failures and peers\<close>

lemma released_append: "released (xs @ ys) = released xs @ released ys"
  by (induction xs rule: released.induct) simp_all

lemma acquired_append: "acquired (xs @ ys) = acquired xs @ acquired ys"
  by (induction xs rule: acquired.induct) simp_all

lemma released_bailOnWalletAndDB: "released (bailOnWalletAndDB env) = [NeutrinoDB]"
  by (simp add: bailOnWalletAndDB_def split: option.splits)

lemma released_bailOnEverything: "released (bailOnEverything env) = [ChainService, NeutrinoDB]"
  by (simp add: bailOnEverything_def released_append released_bailOnWalletAndDB split: option.splits)

lemma acquired_bailOnWalletAndDB: "acquired (bailOnWalletAndDB env) = []"
  by (simp add: bailOnWalletAndDB_def split: option.splits)

lemma acquired_bailOnEverything: "acquired (bailOnEverything env) = []"
  by (simp add: bailOnEverything_def acquired_append acquired_bailOnWalletAndDB split: option.splits)

lemma SynchronizeRPC_notin_bail:
  "SynchronizeRPC \<notin> set (bailOnWalletAndDB env)" "SynchronizeRPC \<notin> set (bailOnEverything env)"
  by (simp_all add: bailOnWalletAndDB_def bailOnEverything_def split: option.splits)

text \<open>The six ways through \<^verbatim>\<open>startWallet\<close>, one lemma for each.\<close>

lemma startWallet_exists_error:
  "WalletExists env = Inl err \<Longrightarrow>
     startWallet env = (Inl (ErrorVerifyingWalletExistence err), [WalletExistsCall])"
  by (simp add: startWallet_def Let_def)

lemma startWallet_not_found:
  "WalletExists env = Inr False \<Longrightarrow> startWallet env = (Inl WalletNotFound, [WalletExistsCall])"
  by (simp add: startWallet_def Let_def)

lemma startWallet_open_wallet_fails:
  "WalletExists env = Inr True \<Longrightarrow> OpenWallet env = Some err \<Longrightarrow>
     startWallet env =
       (Inl (CouldntLoadWallet err),
        [WalletExistsCall, LogDebug ''Starting native BTC wallet...'', OpenWalletCall (Some err)])"
  by (simp add: startWallet_def Let_def)

lemma startWallet_db_fails:
  "WalletExists env = Inr True \<Longrightarrow> OpenWallet env = None \<Longrightarrow> walletdbOpenErr env = Some err \<Longrightarrow>
     startWallet env =
       (Inl (UnableToOpenWalletDb (WalletDataDbPath env) err),
        [WalletExistsCall, LogDebug ''Starting native BTC wallet...'', OpenWalletCall None,
         WalletdbOpen (WalletDataDbPath env) (Some err)])"
  by (simp add: startWallet_def Let_def)

lemma startWallet_chain_service_fails:
  "WalletExists env = Inr True \<Longrightarrow> OpenWallet env = None \<Longrightarrow> walletdbOpenErr env = None \<Longrightarrow>
   newChainServiceErr env = Some err \<Longrightarrow>
     startWallet env =
       (Inl (CouldntCreateChainService err),
        [WalletExistsCall, LogDebug ''Starting native BTC wallet...'', OpenWalletCall None,
         WalletdbOpen (WalletDataDbPath env) None,
         LogDebug ''Starting neutrino chain service...'',
         NewChainService (chainServiceConfig env) (Some err)] @ bailOnWalletAndDB env)"
  by (simp add: startWallet_def Let_def)

lemma startWallet_client_start_fails:
  "WalletExists env = Inr True \<Longrightarrow> OpenWallet env = None \<Longrightarrow> walletdbOpenErr env = None \<Longrightarrow>
   newChainServiceErr env = None \<Longrightarrow> chainClientStartErr env = Some err \<Longrightarrow>
     startWallet env =
       (Inl (CouldntStartNeutrinoClient err),
        [WalletExistsCall, LogDebug ''Starting native BTC wallet...'', OpenWalletCall None,
         WalletdbOpen (WalletDataDbPath env) None,
         LogDebug ''Starting neutrino chain service...'',
         NewChainService (chainServiceConfig env) None,
         NewNeutrinoClient, ChainClientStart (Some err)] @ bailOnEverything env)"
  by (simp add: startWallet_def Let_def)

lemma startWallet_succeeds:
  "WalletExists env = Inr True \<Longrightarrow> OpenWallet env = None \<Longrightarrow> walletdbOpenErr env = None \<Longrightarrow>
   newChainServiceErr env = None \<Longrightarrow> chainClientStartErr env = None \<Longrightarrow>
     startWallet env =
       (Inr (),
        [WalletExistsCall, LogDebug ''Starting native BTC wallet...'', OpenWalletCall None,
         WalletdbOpen (WalletDataDbPath env) None,
         LogDebug ''Starting neutrino chain service...'',
         NewChainService (chainServiceConfig env) None,
         NewNeutrinoClient, ChainClientStart None,
         LogInfo ''Synchronizing wallet with network...'', SynchronizeRPC])"
  by (simp add: startWallet_def Let_def)

text \<open>Every environment takes one of the six ways.\<close>

lemma startWallet_cases:
  obtains
    (exists_error) err where "WalletExists env = Inl err"
  | (not_found) "WalletExists env = Inr False"
  | (open_wallet) err where "WalletExists env = Inr True" "OpenWallet env = Some err"
  | (db) err where "WalletExists env = Inr True" "OpenWallet env = None"
      "walletdbOpenErr env = Some err"
  | (chain_service) err where "WalletExists env = Inr True" "OpenWallet env = None"
      "walletdbOpenErr env = None" "newChainServiceErr env = Some err"
  | (client_start) err where "WalletExists env = Inr True" "OpenWallet env = None"
      "walletdbOpenErr env = None" "newChainServiceErr env = None"
      "chainClientStartErr env = Some err"
  | (success) "WalletExists env = Inr True" "OpenWallet env = None"
      "walletdbOpenErr env = None" "newChainServiceErr env = None"
      "chainClientStartErr env = None"
proof (cases "WalletExists env")
  case (Inl err)
  then show ?thesis by (rule exists_error)
next
  case (Inr b)
  show ?thesis
  proof (cases b)
    case False
    with Inr show ?thesis by (simp add: not_found)
  next
    case True
    with Inr have ex: "WalletExists env = Inr True" by simp
    show ?thesis
    proof (cases "OpenWallet env")
      case (Some err)
      with ex show ?thesis by (rule open_wallet)
    next
      case ow: None
      show ?thesis
      proof (cases "walletdbOpenErr env")
        case (Some err)
        with ex ow show ?thesis by (rule db)
      next
        case dbo: None
        show ?thesis
        proof (cases "newChainServiceErr env")
          case (Some err)
          with ex ow dbo show ?thesis by (rule chain_service)
        next
          case ncs: None
          show ?thesis
          proof (cases "chainClientStartErr env")
            case (Some err)
            with ex ow dbo ncs show ?thesis by (rule client_start)
          next
            case None
            with ex ow dbo ncs show ?thesis by (rule success)
          qed
        qed
      qed
    qed
  qed
qed

lemma startWallet_release_order:
  "released (snd (startWallet env)) =
     (if isl (fst (startWallet env)) then rev (acquired (snd (startWallet env))) else [])"
proof (cases env rule: startWallet_cases)
  case (exists_error err)
  then show ?thesis by (simp add: startWallet_exists_error)
next
  case not_found
  then show ?thesis by (simp add: startWallet_not_found)
next
  case (open_wallet err)
  then show ?thesis by (simp add: startWallet_open_wallet_fails)
next
  case (db err)
  then show ?thesis by (simp add: startWallet_db_fails)
next
  case (chain_service err)
  then show ?thesis
    by (simp add: startWallet_chain_service_fails released_append acquired_append
        released_bailOnWalletAndDB acquired_bailOnWalletAndDB)
next
  case (client_start err)
  then show ?thesis
    by (simp add: startWallet_client_start_fails released_append acquired_append
        released_bailOnEverything acquired_bailOnEverything)
next
  case success
  then show ?thesis by (simp add: startWallet_succeeds)
qed

lemma startWallet_released_distinct: "distinct (released (snd (startWallet env)))"
proof (cases env rule: startWallet_cases)
  case (chain_service err)
  then show ?thesis
    by (simp add: startWallet_chain_service_fails released_append released_bailOnWalletAndDB)
next
  case (client_start err)
  then show ?thesis
    by (simp add: startWallet_client_start_fails released_append released_bailOnEverything)
qed (simp_all add: startWallet_exists_error startWallet_not_found startWallet_open_wallet_fails
      startWallet_db_fails startWallet_succeeds)

lemma startWallet_error_iff:
  "isl (fst (startWallet env)) \<longleftrightarrow>
     \<not> (WalletExists env = Inr True \<and> OpenWallet env = None \<and> walletdbOpenErr env = None \<and>
        newChainServiceErr env = None \<and> chainClientStartErr env = None)"
proof (cases env rule: startWallet_cases)
  case (chain_service err)
  then show ?thesis by (simp add: startWallet_chain_service_fails)
next
  case (client_start err)
  then show ?thesis by (simp add: startWallet_client_start_fails)
qed (simp_all add: startWallet_exists_error startWallet_not_found startWallet_open_wallet_fails
      startWallet_db_fails startWallet_succeeds)

text \<open>
  C1. On a failure \<^verbatim>\<open>startWallet\<close> releases what it acquired, in the reverse order of
  acquisition, each resource once, and returns the error. When the construction of the
  chain service fails after the database was opened, the database is closed before the
  function returns. When the start of the chain client fails after the chain service was
  constructed, the chain service is stopped and then the database is closed. The
  function returns an error whenever one of its steps failed.
\<close>

theorem startWallet_rollback:
  "released (snd (startWallet env)) =
     (if isl (fst (startWallet env)) then rev (acquired (snd (startWallet env))) else [])
   \<and> distinct (released (snd (startWallet env)))
   \<and> (WalletExists env = Inr True \<and> OpenWallet env = None \<and> walletdbOpenErr env = None \<and>
      newChainServiceErr env = Some err \<longrightarrow>
        fst (startWallet env) = Inl (CouldntCreateChainService err) \<and>
        acquired (snd (startWallet env)) = [NeutrinoDB] \<and>
        released (snd (startWallet env)) = [NeutrinoDB])
   \<and> (WalletExists env = Inr True \<and> OpenWallet env = None \<and> walletdbOpenErr env = None \<and>
      newChainServiceErr env = None \<and> chainClientStartErr env = Some err \<longrightarrow>
        fst (startWallet env) = Inl (CouldntStartNeutrinoClient err) \<and>
        acquired (snd (startWallet env)) = [NeutrinoDB, ChainService] \<and>
        released (snd (startWallet env)) = [ChainService, NeutrinoDB])
   \<and> (isl (fst (startWallet env)) \<longleftrightarrow>
        \<not> (WalletExists env = Inr True \<and> OpenWallet env = None \<and> walletdbOpenErr env = None \<and>
           newChainServiceErr env = None \<and> chainClientStartErr env = None))"
proof (intro conjI impI)
  show "released (snd (startWallet env)) =
     (if isl (fst (startWallet env)) then rev (acquired (snd (startWallet env))) else [])"
    by (rule startWallet_release_order)
  show "distinct (released (snd (startWallet env)))"
    by (rule startWallet_released_distinct)
  show "isl (fst (startWallet env)) \<longleftrightarrow>
        \<not> (WalletExists env = Inr True \<and> OpenWallet env = None \<and> walletdbOpenErr env = None \<and>
           newChainServiceErr env = None \<and> chainClientStartErr env = None)"
    by (rule startWallet_error_iff)
next
  assume a: "WalletExists env = Inr True \<and> OpenWallet env = None \<and> walletdbOpenErr env = None \<and>
      newChainServiceErr env = Some err"
  then have eq: "startWallet env =
       (Inl (CouldntCreateChainService err),
        [WalletExistsCall, LogDebug ''Starting native BTC wallet...'', OpenWalletCall None,
         WalletdbOpen (WalletDataDbPath env) None,
         LogDebug ''Starting neutrino chain service...'',
         NewChainService (chainServiceConfig env) (Some err)] @ bailOnWalletAndDB env)"
    by (simp add: startWallet_chain_service_fails)
  show "fst (startWallet env) = Inl (CouldntCreateChainService err)"
    by (simp add: eq)
  show "acquired (snd (startWallet env)) = [NeutrinoDB]"
    by (simp add: eq acquired_append acquired_bailOnWalletAndDB)
  show "released (snd (startWallet env)) = [NeutrinoDB]"
    by (simp add: eq released_append released_bailOnWalletAndDB)
next
  assume a: "WalletExists env = Inr True \<and> OpenWallet env = None \<and> walletdbOpenErr env = None \<and>
      newChainServiceErr env = None \<and> chainClientStartErr env = Some err"
  then have eq: "startWallet env =
       (Inl (CouldntStartNeutrinoClient err),
        [WalletExistsCall, LogDebug ''Starting native BTC wallet...'', OpenWalletCall None,
         WalletdbOpen (WalletDataDbPath env) None,
         LogDebug ''Starting neutrino chain service...'',
         NewChainService (chainServiceConfig env) None,
         NewNeutrinoClient, ChainClientStart (Some err)] @ bailOnEverything env)"
    by (simp add: startWallet_client_start_fails)
  show "fst (startWallet env) = Inl (CouldntStartNeutrinoClient err)"
    by (simp add: eq)
  show "acquired (snd (startWallet env)) = [NeutrinoDB, ChainService]"
    by (simp add: eq acquired_append acquired_bailOnEverything)
  show "released (snd (startWallet env)) = [ChainService, NeutrinoDB]"
    by (simp add: eq released_append released_bailOnEverything)
qed

text \<open>
  Two runs: the chain service cannot be constructed; the chain client cannot be started
  (and the stop of the chain service reports an error of its own).
\<close>

theorem startWallet_rollback_witness:
  "fst (startWallet chainServiceFailsEnv) = Inl (CouldntCreateChainService ''bad peer list'')
   \<and> released (snd (startWallet chainServiceFailsEnv)) = [NeutrinoDB]
   \<and> fst (startWallet clientStartFailsEnv) = Inl (CouldntStartNeutrinoClient ''no connmgr'')
   \<and> released (snd (startWallet clientStartFailsEnv)) = [ChainService, NeutrinoDB]"
  using startWallet_rollback [of chainServiceFailsEnv "''bad peer list''"]
        startWallet_rollback [of clientStartFailsEnv "''no connmgr''"]
  by (simp add: chainServiceFailsEnv_def clientStartFailsEnv_def)

lemma bail_members:
  "WalletdbOpen p r \<notin> set (bailOnWalletAndDB env)"
  "WalletdbOpen p r \<notin> set (bailOnEverything env)"
  "NewChainService cfg r \<notin> set (bailOnWalletAndDB env)"
  "NewChainService cfg r \<notin> set (bailOnEverything env)"
  "ChainClientStart r \<notin> set (bailOnWalletAndDB env)"
  "ChainClientStart r \<notin> set (bailOnEverything env)"
  by (simp_all add: bailOnWalletAndDB_def bailOnEverything_def split: option.splits)

lemma startWallet_db_error_iff:
  "(\<exists>err. fst (startWallet env) = Inl (UnableToOpenWalletDb (WalletDataDbPath env) err)) \<longleftrightarrow>
     (WalletExists env = Inr True \<and> OpenWallet env = None \<and> walletdbOpenErr env \<noteq> None)"
proof (cases env rule: startWallet_cases)
  case (chain_service err)
  then show ?thesis by (simp add: startWallet_chain_service_fails)
next
  case (client_start err)
  then show ?thesis by (simp add: startWallet_client_start_fails)
qed (simp_all add: startWallet_exists_error startWallet_not_found startWallet_open_wallet_fails
      startWallet_db_fails startWallet_succeeds)

lemma startWallet_db_call_failed_iff:
  "(\<exists>p err. WalletdbOpen p (Some err) \<in> set (snd (startWallet env))) \<longleftrightarrow>
     (WalletExists env = Inr True \<and> OpenWallet env = None \<and> walletdbOpenErr env \<noteq> None)"
proof (cases env rule: startWallet_cases)
  case (chain_service err)
  then show ?thesis by (simp add: startWallet_chain_service_fails bail_members)
next
  case (client_start err)
  then show ?thesis by (simp add: startWallet_client_start_fails bail_members)
qed (simp_all add: startWallet_exists_error startWallet_not_found startWallet_open_wallet_fails
      startWallet_db_fails startWallet_succeeds)

lemma startWallet_network_error_iff:
  "(\<exists>err. fst (startWallet env) = Inl (CouldntCreateChainService err) \<or>
          fst (startWallet env) = Inl (CouldntStartNeutrinoClient err)) \<longleftrightarrow>
     (WalletExists env = Inr True \<and> OpenWallet env = None \<and> walletdbOpenErr env = None \<and>
      (newChainServiceErr env \<noteq> None \<or> chainClientStartErr env \<noteq> None))"
proof (cases env rule: startWallet_cases)
  case (chain_service err)
  then show ?thesis by (simp add: startWallet_chain_service_fails)
next
  case (client_start err)
  then show ?thesis by (simp add: startWallet_client_start_fails)
qed (simp_all add: startWallet_exists_error startWallet_not_found startWallet_open_wallet_fails
      startWallet_db_fails startWallet_succeeds)

lemma startWallet_network_call_failed_iff:
  "(\<exists>err. (\<exists>cfg. NewChainService cfg (Some err) \<in> set (snd (startWallet env))) \<or>
          ChainClientStart (Some err) \<in> set (snd (startWallet env))) \<longleftrightarrow>
     (WalletExists env = Inr True \<and> OpenWallet env = None \<and> walletdbOpenErr env = None \<and>
      (newChainServiceErr env \<noteq> None \<or> chainClientStartErr env \<noteq> None))"
proof (cases env rule: startWallet_cases)
  case (chain_service err)
  then show ?thesis by (simp add: startWallet_chain_service_fails bail_members)
next
  case (client_start err)
  then show ?thesis by (simp add: startWallet_client_start_fails bail_members)
qed (simp_all add: startWallet_exists_error startWallet_not_found startWallet_open_wallet_fails
      startWallet_db_fails startWallet_succeeds)

lemma startWallet_synchronize_iff:
  "SynchronizeRPC \<in> set (snd (startWallet env)) \<longleftrightarrow> fst (startWallet env) = Inr ()"
proof (cases env rule: startWallet_cases)
  case (chain_service err)
  then show ?thesis by (simp add: startWallet_chain_service_fails SynchronizeRPC_notin_bail)
next
  case (client_start err)
  then show ?thesis by (simp add: startWallet_client_start_fails SynchronizeRPC_notin_bail)
qed (simp_all add: startWallet_exists_error startWallet_not_found startWallet_open_wallet_fails
      startWallet_db_fails startWallet_succeeds)

lemma startWallet_success_iff:
  "fst (startWallet env) = Inr () \<longleftrightarrow>
     (WalletExists env = Inr True \<and> OpenWallet env = None \<and> walletdbOpenErr env = None \<and>
      newChainServiceErr env = None \<and> chainClientStartErr env = None)"
proof (cases env rule: startWallet_cases)
  case (chain_service err)
  then show ?thesis by (simp add: startWallet_chain_service_fails)
next
  case (client_start err)
  then show ?thesis by (simp add: startWallet_client_start_fails)
qed (simp_all add: startWallet_exists_error startWallet_not_found startWallet_open_wallet_fails
      startWallet_db_fails startWallet_succeeds)

text \<open>
  C6. \<^verbatim>\<open>startWallet\<close> returns its storage error (\<^verbatim>\<open>unable to open wallet db\<close>, the
  spec's StorageUnavailable) exactly when the call that opens the index database
  returned an error, which happens exactly when the wallet exists, was loaded and
  \<^verbatim>\<open>walletdb.Open\<close> fails. It returns one of its two network errors
  (\<^verbatim>\<open>couldn't create Neutrino ChainService\<close>, \<^verbatim>\<open>couldn't start Neutrino client\<close>, the
  spec's NetworkInitFailed) exactly when the construction of the chain service or the
  start of the chain client returned an error. \<^verbatim>\<open>SynchronizeRPC\<close> is reached exactly
  when the function returns no error, which is exactly when every step succeeded.
\<close>

theorem startWallet_failure_kinds:
  "((\<exists>err. fst (startWallet env) = Inl (UnableToOpenWalletDb (WalletDataDbPath env) err)) \<longleftrightarrow>
      (\<exists>p err. WalletdbOpen p (Some err) \<in> set (snd (startWallet env))))
   \<and> ((\<exists>p err. WalletdbOpen p (Some err) \<in> set (snd (startWallet env))) \<longleftrightarrow>
      (WalletExists env = Inr True \<and> OpenWallet env = None \<and> walletdbOpenErr env \<noteq> None))
   \<and> ((\<exists>err. fst (startWallet env) = Inl (CouldntCreateChainService err) \<or>
             fst (startWallet env) = Inl (CouldntStartNeutrinoClient err)) \<longleftrightarrow>
      (\<exists>err. (\<exists>cfg. NewChainService cfg (Some err) \<in> set (snd (startWallet env))) \<or>
             ChainClientStart (Some err) \<in> set (snd (startWallet env))))
   \<and> ((\<exists>err. (\<exists>cfg. NewChainService cfg (Some err) \<in> set (snd (startWallet env))) \<or>
             ChainClientStart (Some err) \<in> set (snd (startWallet env))) \<longleftrightarrow>
      (WalletExists env = Inr True \<and> OpenWallet env = None \<and> walletdbOpenErr env = None \<and>
       (newChainServiceErr env \<noteq> None \<or> chainClientStartErr env \<noteq> None)))
   \<and> (SynchronizeRPC \<in> set (snd (startWallet env)) \<longleftrightarrow> fst (startWallet env) = Inr ())
   \<and> (fst (startWallet env) = Inr () \<longleftrightarrow>
      (WalletExists env = Inr True \<and> OpenWallet env = None \<and> walletdbOpenErr env = None \<and>
       newChainServiceErr env = None \<and> chainClientStartErr env = None))"
  by (simp only: startWallet_db_error_iff startWallet_db_call_failed_iff
      startWallet_network_error_iff startWallet_network_call_failed_iff
      startWallet_synchronize_iff startWallet_success_iff simp_thms)

text \<open>
  Three runs: the database cannot be opened, the chain client cannot be started, and
  every step succeeds.
\<close>

theorem startWallet_failure_kinds_witness:
  "fst (startWallet dbFailsEnv) = Inl (UnableToOpenWalletDb ''/data/btc/wallet.db'' ''timeout'')
   \<and> SynchronizeRPC \<notin> set (snd (startWallet dbFailsEnv))
   \<and> fst (startWallet clientStartFailsEnv) = Inl (CouldntStartNeutrinoClient ''no connmgr'')
   \<and> SynchronizeRPC \<notin> set (snd (startWallet clientStartFailsEnv))
   \<and> fst (startWallet allGoodEnv) = Inr ()
   \<and> SynchronizeRPC \<in> set (snd (startWallet allGoodEnv))"
proof -
  have db: "fst (startWallet dbFailsEnv) = Inl (UnableToOpenWalletDb ''/data/btc/wallet.db'' ''timeout'')"
    by (simp add: startWallet_db_fails dbFailsEnv_def)
  have cl: "fst (startWallet clientStartFailsEnv) = Inl (CouldntStartNeutrinoClient ''no connmgr'')"
    by (simp add: startWallet_client_start_fails clientStartFailsEnv_def)
  from startWallet_failure_kinds [of dbFailsEnv] db
  have "SynchronizeRPC \<notin> set (snd (startWallet dbFailsEnv))" by simp
  moreover from startWallet_failure_kinds [of clientStartFailsEnv] cl
  have "SynchronizeRPC \<notin> set (snd (startWallet clientStartFailsEnv))" by simp
  moreover from startWallet_failure_kinds [of allGoodEnv]
  have "fst (startWallet allGoodEnv) = Inr () \<and> SynchronizeRPC \<in> set (snd (startWallet allGoodEnv))"
    by (simp add: allGoodEnv_def)
  ultimately show ?thesis using db cl by simp
qed

lemma chainServiceConfig_peers:
  "(AddPeers (chainServiceConfig env), ConnectPeers (chainServiceConfig env)) =
     startupPeers (chainParamsNet env)"
  by (simp add: chainServiceConfig_def split: prod.splits)

lemma startWallet_chain_service_call:
  "NewChainService cfg r \<in> set (snd (startWallet env)) \<Longrightarrow> cfg = chainServiceConfig env"
proof (cases env rule: startWallet_cases)
  case (chain_service err)
  then show "NewChainService cfg r \<in> set (snd (startWallet env)) \<Longrightarrow> cfg = chainServiceConfig env"
    by (simp add: startWallet_chain_service_fails bail_members)
next
  case (client_start err)
  then show "NewChainService cfg r \<in> set (snd (startWallet env)) \<Longrightarrow> cfg = chainServiceConfig env"
    by (simp add: startWallet_client_start_fails bail_members)
qed (simp_all add: startWallet_exists_error startWallet_not_found startWallet_open_wallet_fails
      startWallet_db_fails startWallet_succeeds)

lemma startWallet_reaches_chain_service:
  "WalletExists env = Inr True \<Longrightarrow> OpenWallet env = None \<Longrightarrow> walletdbOpenErr env = None \<Longrightarrow>
     NewChainService (chainServiceConfig env) (newChainServiceErr env) \<in> set (snd (startWallet env))"
  by (simp add: startWallet_def Let_def split: option.splits)

text \<open>
  C2. The peers \<^verbatim>\<open>startWallet\<close> hands to \<^verbatim>\<open>neutrino.NewChainService\<close> are a function of
  the network alone. On mainnet and on testnet3 one seed peer of that network is given
  in \<^verbatim>\<open>AddPeers\<close> and \<^verbatim>\<open>ConnectPeers\<close> is empty; on regtest (\<^verbatim>\<open>wire.TestNet\<close>) and on
  simnet \<^verbatim>\<open>AddPeers\<close> is empty and the one connect peer is \<^verbatim>\<open>localhost:20575\<close>. Every
  call of \<^verbatim>\<open>NewChainService\<close> the function makes carries these peers, and the call is
  made once the database is open.
\<close>

theorem startWallet_peer_policy:
  "startupPeers MainNet = ([''cfilters.ssgen.io''], [])
   \<and> startupPeers TestNet3 = ([''dex-test.ssgen.io''], [])
   \<and> startupPeers TestNet = ([], [''localhost:20575''])
   \<and> startupPeers SimNet = ([], [''localhost:20575''])
   \<and> (\<forall>cfg r. NewChainService cfg r \<in> set (snd (startWallet env)) \<longrightarrow>
        (AddPeers cfg, ConnectPeers cfg) = startupPeers (chainParamsNet env) \<and>
        ChainParams cfg = chainParamsNet env)
   \<and> (WalletExists env = Inr True \<and> OpenWallet env = None \<and> walletdbOpenErr env = None \<longrightarrow>
        (\<exists>cfg r. NewChainService cfg r \<in> set (snd (startWallet env))))"
proof (intro conjI allI impI)
  fix cfg r
  assume "NewChainService cfg r \<in> set (snd (startWallet env))"
  then have cfg: "cfg = chainServiceConfig env"
    by (rule startWallet_chain_service_call)
  show "(AddPeers cfg, ConnectPeers cfg) = startupPeers (chainParamsNet env)"
    unfolding cfg by (rule chainServiceConfig_peers)
  show "ChainParams cfg = chainParamsNet env"
    unfolding cfg by (simp add: chainServiceConfig_def split: prod.splits)
next
  assume "WalletExists env = Inr True \<and> OpenWallet env = None \<and> walletdbOpenErr env = None"
  then have "NewChainService (chainServiceConfig env) (newChainServiceErr env)
               \<in> set (snd (startWallet env))"
    by (simp add: startWallet_reaches_chain_service)
  then show "\<exists>cfg r. NewChainService cfg r \<in> set (snd (startWallet env))"
    by blast
qed (simp_all add: startupPeers_def)

text \<open>
  A start on regtest that succeeds: the chain service was configured with the localhost
  connect peer and no added peer.
\<close>

theorem startWallet_peer_policy_witness:
  "NewChainService (chainServiceConfig allGoodEnv) None \<in> set (snd (startWallet allGoodEnv))
   \<and> AddPeers (chainServiceConfig allGoodEnv) = []
   \<and> ConnectPeers (chainServiceConfig allGoodEnv) = [''localhost:20575'']"
proof -
  have m: "NewChainService (chainServiceConfig allGoodEnv) None \<in> set (snd (startWallet allGoodEnv))"
    using startWallet_reaches_chain_service [of allGoodEnv] by (simp add: allGoodEnv_def)
  note policy = startWallet_peer_policy [of allGoodEnv]
  note regtest = policy [THEN conjunct2, THEN conjunct2, THEN conjunct1]
  note calls = policy [THEN conjunct2, THEN conjunct2, THEN conjunct2, THEN conjunct2,
      THEN conjunct1, rule_format, OF m, THEN conjunct1]
  have net: "chainParamsNet allGoodEnv = TestNet"
    by (simp add: allGoodEnv_def)
  from calls have "(AddPeers (chainServiceConfig allGoodEnv), ConnectPeers (chainServiceConfig allGoodEnv))
      = ([], [''localhost:20575''])"
    by (simp only: net regtest)
  with m show ?thesis by simp
qed

section \<open>The policy fetch flag of the treasury page\<close>

lemma FetchPolicies_sets_flag:
  "isPolicyFetchInProgress (page_of (FetchPolicies piKeys pg))"
  by (cases piKeys) (simp_all add: FetchPolicies_def page_of_def)

lemma fetchCompleted_keeps_flag:
  "isPolicyFetchInProgress pg \<Longrightarrow> isPolicyFetchInProgress (fetchCompleted items pg)"
  by (simp add: fetchCompleted_def)

lemma fetchCompleted_sets_flag:
  "0 < fetchesInFlight pg \<Longrightarrow> isPolicyFetchInProgress (fetchCompleted items pg)"
  by (simp add: fetchCompleted_def)

lemma policyPreferenceCallback_keeps_flag:
  "isPolicyFetchInProgress pg \<Longrightarrow>
     isPolicyFetchInProgress (page_of (policyPreferenceCallback err piKeys pg))"
proof (cases err)
  case (Some e)
  assume "isPolicyFetchInProgress pg"
  with Some show ?thesis by (simp add: policyPreferenceCallback_def page_of_def)
next
  case None
  show ?thesis
  proof (cases piKeys)
    case Nil
    with None show ?thesis
      by (simp add: policyPreferenceCallback_def FetchPolicies_def page_of_def)
  next
    case (Cons key rest)
    with None show ?thesis
      by (simp add: policyPreferenceCallback_def FetchPolicies_def page_of_def)
  qed
qed

lemma treasury_step_keeps_flag:
  assumes "isPolicyFetchInProgress pg"
  shows "isPolicyFetchInProgress (page_of (treasury_step op pg))"
proof (cases op)
  case (OpOnNavigatedTo piKeys)
  then show ?thesis by (simp add: OnNavigatedTo_def FetchPolicies_sets_flag)
next
  case OpOnNavigatedFrom
  with assms show ?thesis by (simp add: OnNavigatedFrom_def page_of_def split: option.splits)
next
  case (OpHandleUserInteractions choices info keys)
  with assms show ?thesis by (simp add: HandleUserInteractions_def page_of_def)
next
  case (OpFetchPolicies piKeys)
  then show ?thesis by (simp add: FetchPolicies_sets_flag)
next
  case (OpFetchCompleted items)
  with assms show ?thesis by (simp add: fetchCompleted_keeps_flag page_of_def)
next
  case (OpPolicyPreferenceCallback err piKeys)
  with assms show ?thesis by (simp add: policyPreferenceCallback_keeps_flag)
next
  case OpLayout
  with assms show ?thesis by (simp add: Layout_def page_of_def)
qed

lemma treasury_run_keeps_flag:
  "isPolicyFetchInProgress pg \<Longrightarrow> isPolicyFetchInProgress (page_of (treasury_run ops pg))"
proof (induction ops arbitrary: pg)
  case Nil
  then show ?case by (simp add: page_of_def)
next
  case (Cons op ops)
  from Cons.prems have step: "isPolicyFetchInProgress (page_of (treasury_step op pg))"
    by (rule treasury_step_keeps_flag)
  show ?case
  proof (cases "treasury_step op pg")
    case (Inl crash)
    with step show ?thesis by simp
  next
    case (Inr pg')
    with step have "isPolicyFetchInProgress pg'" by (simp add: page_of_def)
    then have "isPolicyFetchInProgress (page_of (treasury_run ops pg'))" by (rule Cons.IH)
    with Inr show ?thesis by simp
  qed
qed

text \<open>
  C3. \<^verbatim>\<open>FetchPolicies\<close> sets \<^verbatim>\<open>isPolicyFetchInProgress\<close> before it starts the background
  fetch, and the completion of the background fetch assigns \<^verbatim>\<open>true\<close> to it again. No
  operation of the page clears it: once it is set it is set after every sequence of
  operations, so after a \<^verbatim>\<open>FetchPolicies\<close> call it stays set for good, and every
  \<^verbatim>\<open>HandleUserInteractions\<close> from then on arms another reload timer.
\<close>

theorem policy_fetch_flag_never_cleared:
  "isPolicyFetchInProgress (page_of (FetchPolicies piKeys pg))
   \<and> (0 < fetchesInFlight pg \<longrightarrow> isPolicyFetchInProgress (fetchCompleted items pg))
   \<and> (isPolicyFetchInProgress pg \<longrightarrow> isPolicyFetchInProgress (page_of (treasury_run ops pg)))
   \<and> isPolicyFetchInProgress (page_of (treasury_run ops (page_of (FetchPolicies piKeys pg))))
   \<and> (isPolicyFetchInProgress pg \<longrightarrow>
        reloadTimers (HandleUserInteractions choices info keys pg) = Suc (reloadTimers pg))"
proof (intro conjI impI)
  show "isPolicyFetchInProgress (page_of (FetchPolicies piKeys pg))"
    by (rule FetchPolicies_sets_flag)
  then show "isPolicyFetchInProgress (page_of (treasury_run ops (page_of (FetchPolicies piKeys pg))))"
    by (rule treasury_run_keeps_flag)
next
  assume "0 < fetchesInFlight pg"
  then show "isPolicyFetchInProgress (fetchCompleted items pg)"
    by (rule fetchCompleted_sets_flag)
next
  assume "isPolicyFetchInProgress pg"
  then show "isPolicyFetchInProgress (page_of (treasury_run ops pg))"
    by (rule treasury_run_keeps_flag)
next
  assume "isPolicyFetchInProgress pg"
  then show "reloadTimers (HandleUserInteractions choices info keys pg) = Suc (reloadTimers pg)"
    by (simp add: HandleUserInteractions_def)
qed

text \<open>
  A new page is navigated to, its fetch completes with one policy, the user interacts,
  a vote is cast, the second fetch completes, and the page is left: the flag is still
  set, although no fetch is in flight.
\<close>

theorem policy_fetch_flag_never_cleared_witness:
  "\<not> isPolicyFetchInProgress NewTreasuryPage
   \<and> isPolicyFetchInProgress (page_of (treasury_run
        [OpFetchCompleted [''policy''], OpHandleUserInteractions 1 False 0,
         OpPolicyPreferenceCallback None [''pikey''], OpFetchCompleted [''policy''],
         OpLayout, OpOnNavigatedFrom]
        (page_of (FetchPolicies [''pikey''] NewTreasuryPage))))
   \<and> fetchesInFlight (page_of (treasury_run
        [OpFetchCompleted [''policy''], OpHandleUserInteractions 1 False 0,
         OpPolicyPreferenceCallback None [''pikey''], OpFetchCompleted [''policy''],
         OpLayout, OpOnNavigatedFrom]
        (page_of (FetchPolicies [''pikey''] NewTreasuryPage)))) = 0"
proof -
  have "isPolicyFetchInProgress (page_of (treasury_run
        [OpFetchCompleted [''policy''], OpHandleUserInteractions 1 False 0,
         OpPolicyPreferenceCallback None [''pikey''], OpFetchCompleted [''policy''],
         OpLayout, OpOnNavigatedFrom]
        (page_of (FetchPolicies [''pikey''] NewTreasuryPage))))"
    using policy_fetch_flag_never_cleared [of "[''pikey'']" NewTreasuryPage] by blast
  moreover have "\<not> isPolicyFetchInProgress NewTreasuryPage"
    by (simp add: NewTreasuryPage_def)
  moreover have "fetchesInFlight (page_of (treasury_run
        [OpFetchCompleted [''policy''], OpHandleUserInteractions 1 False 0,
         OpPolicyPreferenceCallback None [''pikey''], OpFetchCompleted [''policy''],
         OpLayout, OpOnNavigatedFrom]
        (page_of (FetchPolicies [''pikey''] NewTreasuryPage)))) = 0"
    by (simp add: NewTreasuryPage_def FetchPolicies_def page_of_def fetchCompleted_def
        HandleUserInteractions_def policyPreferenceCallback_def Layout_def OnNavigatedFrom_def)
  ultimately show ?thesis by blast
qed

section \<open>The staking page: ticket price and ticket buyer\<close>

text \<open>
  C9. \<^verbatim>\<open>fetchTicketPrice\<close> takes its error branch exactly when \<^verbatim>\<open>TicketPrice\<close>
  returned an error and the wallet is not synced. So when \<^verbatim>\<open>TicketPrice\<close> returns an
  error with a nil result while the wallet is synced, the \<^verbatim>\<open>else\<close> branch reads the
  price through the nil pointer: the guard does not cover every error outcome.
\<close>

theorem fetchTicketPrice_guard:
  "((\<exists>pg'. fetchTicketPrice w pg = Inr pg' \<and> ticketPrice pg' = StrNotAvailable) \<longleftrightarrow>
      (snd (TicketPriceResult w) \<noteq> None \<and> \<not> WalletIsSynced w))
   \<and> (TicketPriceResult w = (None, Some err) \<and> WalletIsSynced w \<longrightarrow>
        fetchTicketPrice w pg = Inl NilPointerDereference)
   \<and> (\<exists>w' err'. TicketPriceResult w' = (None, Some err') \<and> WalletIsSynced w' \<and>
        fetchTicketPrice w' pg = Inl NilPointerDereference)"
proof (intro conjI impI)
  show "(\<exists>pg'. fetchTicketPrice w pg = Inr pg' \<and> ticketPrice pg' = StrNotAvailable) \<longleftrightarrow>
      (snd (TicketPriceResult w) \<noteq> None \<and> \<not> WalletIsSynced w)"
    by (cases "TicketPriceResult w") (auto simp: fetchTicketPrice_def split: option.splits)
next
  assume "TicketPriceResult w = (None, Some err) \<and> WalletIsSynced w"
  then show "fetchTicketPrice w pg = Inl NilPointerDereference"
    by (simp add: fetchTicketPrice_def)
next
  have "TicketPriceResult disconnectedWallet = (None, Some ''not connected'') \<and>
        WalletIsSynced disconnectedWallet \<and>
        fetchTicketPrice disconnectedWallet pg = Inl NilPointerDereference"
    by (simp add: fetchTicketPrice_def disconnectedWallet_def)
  then show "\<exists>w' err'. TicketPriceResult w' = (None, Some err') \<and> WalletIsSynced w' \<and>
        fetchTicketPrice w' pg = Inl NilPointerDereference"
    by blast
qed

text \<open>A synced wallet whose \<^verbatim>\<open>TicketPrice\<close> fails with a nil result: the call panics.\<close>

theorem fetchTicketPrice_guard_witness:
  "TicketPriceResult disconnectedWallet = (None, Some ''not connected'')
   \<and> WalletIsSynced disconnectedWallet
   \<and> fetchTicketPrice disconnectedWallet stakingPage0 = Inl NilPointerDereference"
proof -
  have h: "TicketPriceResult disconnectedWallet = (None, Some ''not connected'') \<and>
           WalletIsSynced disconnectedWallet"
    by (simp add: disconnectedWallet_def)
  note guard = fetchTicketPrice_guard [of disconnectedWallet stakingPage0 "''not connected''"]
  from guard [THEN conjunct2, THEN conjunct1, rule_format, OF h] h
  show ?thesis by simp
qed

text \<open>
  C7. The callback that starts the ticket buyer asks
  \<^verbatim>\<open>IsConnectedToDecredNetwork\<close> first. When the wallet is not connected it reports the
  not-connected error on the modal, stops the modal's loading state, unchecks the stake
  switch and returns \<^verbatim>\<open>false\<close>; the wallet is left as it was and
  \<^verbatim>\<open>StartTicketBuyer\<close> is not called. A connected wallet gets exactly one
  \<^verbatim>\<open>StartTicketBuyer\<close> call.
\<close>

theorem startTicketBuyer_requires_connection:
  "(\<not> IsConnectedToDecredNetwork w \<longrightarrow>
      startTicketBuyerCallback password (w, pg, pm) =
        (False, w, pg\<lparr>stakeChecked := False\<rparr>,
         pm\<lparr>modalError := Some StrNotConnected, modalLoading := False\<rparr>))
   \<and> (IsConnectedToDecredNetwork w \<longrightarrow>
      startTicketBuyerCalls (fst (snd (startTicketBuyerCallback password (w, pg, pm)))) =
        startTicketBuyerCalls w @ [password])"
  by (auto simp: startTicketBuyerCallback_def StartTicketBuyer_def split: option.splits)

text \<open>A disconnected wallet: the switch is unchecked and the ticket buyer is not started.\<close>

theorem startTicketBuyer_requires_connection_witness:
  "fst (startTicketBuyerCallback ''pass'' (disconnectedWallet, stakingPage0, passwordModal0)) = False
   \<and> fst (snd (startTicketBuyerCallback ''pass'' (disconnectedWallet, stakingPage0, passwordModal0)))
       = disconnectedWallet
   \<and> startTicketBuyerCalls disconnectedWallet = []
   \<and> \<not> stakeChecked (fst (snd (snd
        (startTicketBuyerCallback ''pass'' (disconnectedWallet, stakingPage0, passwordModal0)))))
   \<and> modalError (snd (snd (snd
        (startTicketBuyerCallback ''pass'' (disconnectedWallet, stakingPage0, passwordModal0)))))
       = Some StrNotConnected"
proof -
  have h: "\<not> IsConnectedToDecredNetwork disconnectedWallet"
    by (simp add: disconnectedWallet_def)
  note conn = startTicketBuyer_requires_connection [of disconnectedWallet "''pass''" stakingPage0 passwordModal0]
  from conn [THEN conjunct1, rule_format, OF h]
  show ?thesis by (simp add: disconnectedWallet_def)
qed

section \<open>The notification listener: duplicates and cancellation\<close>

lemma ListenForTxNotifications_attached:
  "TxAndBlockNotificationListener ws = Some c \<Longrightarrow> ListenForTxNotifications uid ws = ws"
  by (simp add: ListenForTxNotifications_def)

lemma ListenForTxNotifications_duplicate:
  assumes "TxAndBlockNotificationListener ws = None" "listenerRegistry ws uid = Some c0"
  shows "ListenForTxNotifications uid ws =
           ws\<lparr>TxAndBlockNotificationListener := Some (channelsCreated ws),
              channelsCreated := Suc (channelsCreated ws),
              errorLog := errorLog ws @
                [''Error adding tx and block notification listener: DuplicateSubscriber'']\<rparr>"
  using assms
  by (simp add: ListenForTxNotifications_def AddTxAndBlockNotificationListener_def Let_def)

lemma ListenForTxNotifications_registers:
  assumes "TxAndBlockNotificationListener ws = None" "listenerRegistry ws uid = None"
  shows "ListenForTxNotifications uid ws =
           ws\<lparr>TxAndBlockNotificationListener := Some (channelsCreated ws),
              channelsCreated := Suc (channelsCreated ws),
              listenerRegistry := (listenerRegistry ws)(uid \<mapsto> channelsCreated ws),
              goroutineAlive := True\<rparr>"
  using assms
  by (simp add: ListenForTxNotifications_def AddTxAndBlockNotificationListener_def Let_def)

lemma ctxDone_live:
  assumes "goroutineAlive ws" "TxAndBlockNotificationListener ws = Some c" "c \<notin> closedChannels ws"
  shows "ctxDone uid ws =
           Inr (ws\<lparr>listenerRegistry := (listenerRegistry ws)(uid := None),
                   closedChannels := insert c (closedChannels ws),
                   TxAndBlockNotificationListener := None,
                   goroutineAlive := False\<rparr>)"
  using assms
  by (simp add: ctxDone_def RemoveTxAndBlockNotificationListener_def Let_def)

text \<open>
  C4. Registering under an ID that is active fails with \<^verbatim>\<open>DuplicateSubscriber\<close> and
  leaves the registry as it was, so the existing subscriber keeps its channel:
  \<^verbatim>\<open>ListenForTxNotifications\<close> on a selector without a listener, under an ID somebody
  holds, changes neither the registry nor the closed channels, starts no goroutine and
  logs the error. A second \<^verbatim>\<open>ListenForTxNotifications\<close> on a selector whose listener is
  attached returns at once and changes nothing.
\<close>

theorem duplicate_listener_rejected:
  "(registry uid = Some c0 \<longrightarrow>
      AddTxAndBlockNotificationListener listener async uid registry = Inl DuplicateSubscriber)
   \<and> (TxAndBlockNotificationListener ws = None \<and> listenerRegistry ws uid = Some c0 \<longrightarrow>
        listenerRegistry (ListenForTxNotifications uid ws) = listenerRegistry ws \<and>
        closedChannels (ListenForTxNotifications uid ws) = closedChannels ws \<and>
        goroutineAlive (ListenForTxNotifications uid ws) = goroutineAlive ws \<and>
        errorLog (ListenForTxNotifications uid ws) =
          errorLog ws @ [''Error adding tx and block notification listener: DuplicateSubscriber''])
   \<and> (TxAndBlockNotificationListener ws = Some c \<longrightarrow> ListenForTxNotifications uid ws = ws)"
proof (intro conjI impI)
  assume "registry uid = Some c0"
  then show "AddTxAndBlockNotificationListener listener async uid registry = Inl DuplicateSubscriber"
    by (simp add: AddTxAndBlockNotificationListener_def)
next
  assume a: "TxAndBlockNotificationListener ws = None \<and> listenerRegistry ws uid = Some c0"
  then have eq: "ListenForTxNotifications uid ws =
           ws\<lparr>TxAndBlockNotificationListener := Some (channelsCreated ws),
              channelsCreated := Suc (channelsCreated ws),
              errorLog := errorLog ws @
                [''Error adding tx and block notification listener: DuplicateSubscriber'']\<rparr>"
    by (simp add: ListenForTxNotifications_duplicate)
  show "listenerRegistry (ListenForTxNotifications uid ws) = listenerRegistry ws"
    by (simp add: eq)
  show "closedChannels (ListenForTxNotifications uid ws) = closedChannels ws"
    by (simp add: eq)
  show "goroutineAlive (ListenForTxNotifications uid ws) = goroutineAlive ws"
    by (simp add: eq)
  show "errorLog (ListenForTxNotifications uid ws) =
          errorLog ws @ [''Error adding tx and block notification listener: DuplicateSubscriber'']"
    by (simp add: eq)
next
  assume "TxAndBlockNotificationListener ws = Some c"
  then show "ListenForTxNotifications uid ws = ws"
    by (rule ListenForTxNotifications_attached)
qed

text \<open>
  A fresh selector listens and gets channel 0. A second call changes nothing and the
  registry still holds channel 0. Another selector, under the same ID, is refused and
  the registry still holds channel 0.
\<close>

theorem duplicate_listener_rejected_witness:
  "listenerRegistry (ListenForTxNotifications WalletAndAccountSelectorID freshSelector)
       WalletAndAccountSelectorID = Some 0
   \<and> ListenForTxNotifications WalletAndAccountSelectorID
       (ListenForTxNotifications WalletAndAccountSelectorID freshSelector)
     = ListenForTxNotifications WalletAndAccountSelectorID freshSelector
   \<and> listenerRegistry (ListenForTxNotifications WalletAndAccountSelectorID
        (freshSelector\<lparr>listenerRegistry := [WalletAndAccountSelectorID \<mapsto> 0]\<rparr>))
       WalletAndAccountSelectorID = Some 0
   \<and> \<not> goroutineAlive (ListenForTxNotifications WalletAndAccountSelectorID
        (freshSelector\<lparr>listenerRegistry := [WalletAndAccountSelectorID \<mapsto> 0]\<rparr>))"
proof -
  let ?uid = WalletAndAccountSelectorID
  let ?s1 = "ListenForTxNotifications ?uid freshSelector"
  let ?other = "freshSelector\<lparr>listenerRegistry := [?uid \<mapsto> 0]\<rparr>"
  have s1: "?s1 = freshSelector\<lparr>TxAndBlockNotificationListener := Some 0,
              channelsCreated := Suc 0,
              listenerRegistry := [?uid \<mapsto> 0],
              goroutineAlive := True\<rparr>"
    using ListenForTxNotifications_registers [of freshSelector ?uid]
    by (simp add: freshSelector_def)
  have attached: "TxAndBlockNotificationListener ?s1 = Some 0"
    by (simp add: s1)
  have held: "TxAndBlockNotificationListener ?other = None \<and> listenerRegistry ?other ?uid = Some 0"
    by (simp add: freshSelector_def)
  note second = duplicate_listener_rejected [of _ ?uid 0 _ _ ?s1 0,
      THEN conjunct2, THEN conjunct2, rule_format, OF attached]
  note refused = duplicate_listener_rejected [of _ ?uid 0 _ _ ?other 0,
      THEN conjunct2, THEN conjunct1, rule_format, OF held]
  have "listenerRegistry ?s1 ?uid = Some 0"
    by (simp add: s1)
  moreover have "ListenForTxNotifications ?uid ?s1 = ?s1"
    by (rule second)
  moreover from refused have "listenerRegistry (ListenForTxNotifications ?uid ?other) ?uid = Some 0"
    by simp
  moreover from refused have "\<not> goroutineAlive (ListenForTxNotifications ?uid ?other)"
    by (simp add: freshSelector_def)
  ultimately show ?thesis by blast
qed

text \<open>
  C5. When the goroutine of a selector sees its context done, it removes the selector's
  registration, closes the listener's channel and resets the listener field, and ends.
  Afterwards nothing receives from the channel, and \<^verbatim>\<open>ListenForTxNotifications\<close> under
  the same ID registers a new listener with a new channel.
\<close>

theorem cancellation_closes_listener:
  assumes "goroutineAlive ws" "TxAndBlockNotificationListener ws = Some c"
    "c \<notin> closedChannels ws"
  shows "\<exists>ws'. ctxDone uid ws = Inr ws'
     \<and> listenerRegistry ws' uid = None
     \<and> c \<in> closedChannels ws'
     \<and> TxAndBlockNotificationListener ws' = None
     \<and> \<not> goroutineAlive ws'
     \<and> onNotification old l n ws' = Inr ws'
     \<and> ctxDone uid ws' = Inr ws'
     \<and> listenerRegistry (ListenForTxNotifications uid ws') uid = Some (channelsCreated ws')
     \<and> TxAndBlockNotificationListener (ListenForTxNotifications uid ws') = Some (channelsCreated ws')
     \<and> goroutineAlive (ListenForTxNotifications uid ws')
     \<and> errorLog (ListenForTxNotifications uid ws') = errorLog ws"
proof -
  let ?ws' = "ws\<lparr>listenerRegistry := (listenerRegistry ws)(uid := None),
                   closedChannels := insert c (closedChannels ws),
                   TxAndBlockNotificationListener := None,
                   goroutineAlive := False\<rparr>"
  have cancelled: "ctxDone uid ws = Inr ?ws'"
    using assms by (rule ctxDone_live)
  have free: "TxAndBlockNotificationListener ?ws' = None" "listenerRegistry ?ws' uid = None"
    by simp_all
  have again: "ListenForTxNotifications uid ?ws' =
           ?ws'\<lparr>TxAndBlockNotificationListener := Some (channelsCreated ?ws'),
              channelsCreated := Suc (channelsCreated ?ws'),
              listenerRegistry := (listenerRegistry ?ws')(uid \<mapsto> channelsCreated ?ws'),
              goroutineAlive := True\<rparr>"
    using free by (rule ListenForTxNotifications_registers)
  have "listenerRegistry ?ws' uid = None" "c \<in> closedChannels ?ws'"
    "TxAndBlockNotificationListener ?ws' = None" "\<not> goroutineAlive ?ws'"
    by simp_all
  moreover have "onNotification old l n ?ws' = Inr ?ws'"
    by (simp add: onNotification_def)
  moreover have "ctxDone uid ?ws' = Inr ?ws'"
    by (simp add: ctxDone_def)
  moreover have "listenerRegistry (ListenForTxNotifications uid ?ws') uid = Some (channelsCreated ?ws')"
    "TxAndBlockNotificationListener (ListenForTxNotifications uid ?ws') = Some (channelsCreated ?ws')"
    "goroutineAlive (ListenForTxNotifications uid ?ws')"
    "errorLog (ListenForTxNotifications uid ?ws') = errorLog ws"
    unfolding again by simp_all
  ultimately show ?thesis
    using cancelled by blast
qed

text \<open>
  A fresh selector listens (channel 0) and is cancelled: the ID is free, channel 0 is
  closed, the field is nil. Listening again registers channel 1.
\<close>

theorem cancellation_closes_listener_witness:
  "\<exists>ws'. ctxDone WalletAndAccountSelectorID
            (ListenForTxNotifications WalletAndAccountSelectorID freshSelector) = Inr ws'
     \<and> listenerRegistry ws' WalletAndAccountSelectorID = None
     \<and> 0 \<in> closedChannels ws'
     \<and> TxAndBlockNotificationListener ws' = None
     \<and> listenerRegistry (ListenForTxNotifications WalletAndAccountSelectorID ws')
          WalletAndAccountSelectorID = Some (channelsCreated ws')"
proof -
  let ?uid = WalletAndAccountSelectorID
  let ?s1 = "ListenForTxNotifications ?uid freshSelector"
  have s1: "?s1 = freshSelector\<lparr>TxAndBlockNotificationListener := Some 0,
              channelsCreated := Suc 0,
              listenerRegistry := [?uid \<mapsto> 0],
              goroutineAlive := True\<rparr>"
    using ListenForTxNotifications_registers [of freshSelector ?uid]
    by (simp add: freshSelector_def)
  have h: "goroutineAlive ?s1" "TxAndBlockNotificationListener ?s1 = Some 0"
    "0 \<notin> closedChannels ?s1"
    unfolding s1 by (simp_all add: freshSelector_def)
  from cancellation_closes_listener [OF h, of ?uid False exampleLoad BlockAttached]
  show ?thesis by blast
qed

end
